theory Spec2Isabelle
  imports Complex_Main "HOL-Library.Word" "HOL-Library.Sublist"
begin

unbundle bit_operations_syntax

section \<open>Machine types and undefined behaviour\<close>

text \<open>
  The library is C on an LP64 target: \<open>size_t\<close> is an unsigned 64-bit integer whose
  arithmetic wraps, \<open>unsigned\<close> is 32 bits wide, and pointers are 64-bit addresses with
  \<open>NULL = 0\<close>. Values of type \<open>int\<close> that only hold widths, lengths and loop counters are
  kept as mathematical integers; every conversion into \<open>int\<close> from a wider or a floating
  type is written out. Values of type \<open>double\<close> and \<open>float\<close> are modelled by real
  numbers: comparisons are exact, infinities and NaN are not represented, and an operation
  whose C result would be infinite or NaN is reported as a fault instead of being given a
  real value. Rounding to the binary format is written out where it decides a result: in
  the constants and assignments that store a \<open>float\<close>, and in the arithmetic of the ASCII
  bar, whose quotient is truncated to a number of cells. The remaining arithmetic on
  \<open>double\<close>, whose results are printed with a few digits, is that of the real numbers.

  Steps on which the C standard puts no meaning are results of their own, so that a
  function of the model is total and says where the source is not.
\<close>

type_synonym size_t = "64 word"
type_synonym unsigned = "32 word"
type_synonym addr = "64 word"

datatype fault =
    CastOutOfRange     \<comment> \<open>floating value converted to an integer type that cannot hold it\<close>
  | BufferOverflow     \<comment> \<open>write past the end of a heap buffer\<close>
  | NullCall           \<comment> \<open>call through a function pointer that is \<open>NULL\<close>\<close>
  | NotFinite          \<comment> \<open>floating division by zero: the quotient is no real number\<close>

definition fault_bind :: "fault + 'a \<Rightarrow> ('a \<Rightarrow> fault + 'b) \<Rightarrow> fault + 'b" where
  "fault_bind r k = (case r of Inl f \<Rightarrow> Inl f | Inr x \<Rightarrow> k x)"

definition fdiv :: "real \<Rightarrow> real \<Rightarrow> fault + real" where
  \<comment> \<open>\<open>a / b\<close> on \<open>double\<close>\<close>
  "fdiv a b = (if b = 0 then Inl NotFinite else Inr (a / b))"

definition trunc_real :: "real \<Rightarrow> int" where
  "trunc_real x = (if 0 \<le> x then \<lfloor>x\<rfloor> else - \<lfloor>- x\<rfloor>)"

definition double_to_ll :: "real \<Rightarrow> fault + int" where
  \<comment> \<open>\<open>(long long)x\<close>\<close>
  "double_to_ll x =
     (if - (2 ^ 63) - 1 < x \<and> x < 2 ^ 63 then Inr (trunc_real x) else Inl CastOutOfRange)"

definition double_to_int :: "real \<Rightarrow> fault + int" where
  \<comment> \<open>\<open>(int)x\<close>\<close>
  "double_to_int x =
     (if - (2 ^ 31) - 1 < x \<and> x < 2 ^ 31 then Inr (trunc_real x) else Inl CastOutOfRange)"

definition size_to_int :: "size_t \<Rightarrow> int" where
  \<comment> \<open>\<open>(int)x\<close> for a \<open>size_t\<close>: the low 32 bits, read as two's complement\<close>
  "size_to_int x = sint (ucast x :: 32 word)"

definition c_div :: "int \<Rightarrow> int \<Rightarrow> int" where
  \<comment> \<open>C's \<open>/\<close> on \<open>int\<close> truncates towards zero\<close>
  "c_div a b = (if (a < 0) = (b < 0) then \<bar>a\<bar> div \<bar>b\<bar> else - (\<bar>a\<bar> div \<bar>b\<bar>))"

definition c_mod :: "int \<Rightarrow> int \<Rightarrow> int" where
  \<comment> \<open>C's \<open>%\<close>: the remainder has the sign of the dividend\<close>
  "c_mod a b = a - b * c_div a b"

subsection \<open>Rounding to a binary floating-point format\<close>

text \<open>
  A number of a binary format with \<open>p\<close> significant bits is a multiple \<open>m * 2^e\<close> with
  \<open>\<bar>m\<bar> \<le> 2^p\<close>, where \<open>e\<close> is not below the exponent \<open>emin\<close> of the format's smallest
  positive number. A conversion or an arithmetic operation returns the number of the
  format that is nearest to the exact result, the one with the even significand when two
  are equally near. Results of magnitude \<open>2^1024\<close> and more (\<open>2^128\<close> for a \<open>float\<close>), which
  round to an infinity, are outside what the real numbers represent.
\<close>

definition round_half_even :: "real \<Rightarrow> int" where
  "round_half_even x =
     (let f = \<lfloor>x\<rfloor>; r = x - of_int f
      in if r < 1 / 2 then f else if 1 / 2 < r then f + 1 else if even f then f else f + 1)"

function bit_length :: "int \<Rightarrow> int" where
  \<comment> \<open>the number of binary digits of a positive integer\<close>
  "bit_length k = (if 0 < k then bit_length (k div 2) + 1 else 0)"
  by pat_completeness auto
termination
  by (relation "measure nat") auto

declare bit_length.simps [simp del]

definition binary_exponent :: "real \<Rightarrow> int" where
  \<comment> \<open>for \<open>a > 0\<close>, an exponent \<open>l\<close> with \<open>2^(l - 1) \<le> a \<le> 2^l\<close>\<close>
  "binary_exponent a = (if 1 \<le> a then bit_length \<lfloor>a\<rfloor> else 1 - bit_length \<lfloor>1 / a\<rfloor>)"

definition pow2 :: "int \<Rightarrow> real" where
  "pow2 e = (if 0 \<le> e then 2 ^ nat e else 1 / 2 ^ nat (- e))"

definition binary_round :: "int \<Rightarrow> int \<Rightarrow> real \<Rightarrow> real" where
  \<comment> \<open>the multiple of \<open>2^e\<close> nearest to \<open>x\<close>, where \<open>2^e\<close> is the spacing of the format
     around \<open>x\<close>\<close>
  "binary_round p emin x =
     (if x = 0 then 0
      else
        let e = max emin (binary_exponent \<bar>x\<bar> - p);
            r = of_int (round_half_even (\<bar>x\<bar> / pow2 e)) * pow2 e
        in if x < 0 then - r else r)"

definition double_round :: "real \<Rightarrow> real" where
  \<comment> \<open>binary64\<close>
  "double_round = binary_round 53 (- 1074)"

definition float_round :: "real \<Rightarrow> real" where
  \<comment> \<open>binary32\<close>
  "float_round = binary_round 24 (- 149)"

definition size_to_double :: "size_t \<Rightarrow> real" where
  \<comment> \<open>\<open>(double)x\<close> for a \<open>size_t\<close>\<close>
  "size_to_double x = double_round (real_of_int (uint x))"

section \<open>The conversions of \<open>snprintf\<close> that the formatters use\<close>

definition digit_char :: "int \<Rightarrow> char" where
  "digit_char d = ''0123456789'' ! nat (d mod 10)"

function dec_digits :: "int \<Rightarrow> string" where
  \<comment> \<open>the decimal digits of a non-negative integer\<close>
  "dec_digits k =
     (if k < 10 then [digit_char k] else dec_digits (k div 10) @ [digit_char (k mod 10)])"
  by pat_completeness auto
termination
  by (relation "measure nat") auto

declare dec_digits.simps [simp del]

definition int_dec :: "int \<Rightarrow> string" where
  \<comment> \<open>\<open>%d\<close>, \<open>%lld\<close>, \<open>%zu\<close>\<close>
  "int_dec i = (if i < 0 then ''-'' @ dec_digits (- i) else dec_digits i)"

definition pad_left :: "char \<Rightarrow> nat \<Rightarrow> string \<Rightarrow> string" where
  "pad_left c w s = replicate (w - length s) c @ s"

definition printf_02d :: "int \<Rightarrow> string" where
  \<comment> \<open>\<open>%02d\<close>\<close>
  "printf_02d i = (if i < 0 then ''-'' @ pad_left CHR ''0'' 1 (dec_digits (- i))
                   else pad_left CHR ''0'' 2 (dec_digits i))"

definition printf_f :: "nat \<Rightarrow> real \<Rightarrow> string" where
  \<comment> \<open>\<open>%.pf\<close>: \<open>p\<close> decimals, the exact value rounded to nearest, ties to even\<close>
  "printf_f p v =
     (let m = round_half_even (\<bar>v\<bar> * 10 ^ p)
      in (if v < 0 then ''-'' else '''') @ dec_digits (m div 10 ^ p) @
         (if p = 0 then '''' else ''.'' @ pad_left CHR ''0'' p (dec_digits (m mod 10 ^ p))))"

section \<open>Numeric formatters\<close>

definition prefixes_table :: "string list" where
  "prefixes_table = ['''', ''k'', ''M'', ''G'', ''T'', ''P'', ''E'', ''Z'', ''Y'']"

text \<open>
  The two \<open>while\<close> loops of \<open>tqdm_format_sizeof\<close>, which differ in the divisor only.
  Dividing by a zero divisor gives an infinity or a NaN in C: the loop then has no real
  value and the result is \<open>None\<close>.
\<close>

function sizeof_loop :: "real \<Rightarrow> real \<Rightarrow> nat \<Rightarrow> (real \<times> nat) option" where
  "sizeof_loop d num prefix_idx =
     (if d \<le> num \<and> prefix_idx < 8
      then (if d = 0 then None else sizeof_loop d (num / d) (prefix_idx + 1))
      else Some (num, prefix_idx))"
  by pat_completeness auto
termination
  by (relation "measure (\<lambda>(d, num, prefix_idx). 8 - prefix_idx)") auto

declare sizeof_loop.simps [simp del]

definition opt_str :: "string option \<Rightarrow> string" where
  \<comment> \<open>\<open>p ? p : ""\<close>\<close>
  "opt_str p = (case p of None \<Rightarrow> '''' | Some x \<Rightarrow> x)"

definition sizeof_text :: "real \<Rightarrow> nat \<Rightarrow> string \<Rightarrow> fault + string" where
  \<comment> \<open>the four \<open>snprintf\<close> branches, into a buffer of 64 bytes\<close>
  "sizeof_text num prefix_idx suffix_str =
     (case double_to_ll num of
        Inl f \<Rightarrow> Inl f
      | Inr ll \<Rightarrow>
          Inr (take 63
            ((if num = of_int ll \<and> num < 1000000 then int_dec ll
              else if 100 \<le> num \<or> prefix_idx = 0 then printf_f 0 num
              else if 10 \<le> num then printf_f 1 num
              else printf_f 2 num)
             @ prefixes_table ! prefix_idx @ suffix_str)))"

definition tqdm_format_sizeof :: "real \<Rightarrow> string option \<Rightarrow> int \<Rightarrow> fault + string" where
  "tqdm_format_sizeof num sfx divisor =
     (case (if divisor = 1024 then sizeof_loop 1024 num 0
            else sizeof_loop (of_int divisor) num 0) of
        None \<Rightarrow> Inl CastOutOfRange
      | Some (num', prefix_idx) \<Rightarrow>
          sizeof_text num' prefix_idx (opt_str sfx))"

definition tqdm_format_interval :: "real \<Rightarrow> string" where
  \<comment> \<open>\<open>t\<close> is within \<open>[0, 31536000]\<close> at the cast, so \<open>(int)t\<close> is defined and the
     quotients and remainders are those of non-negative operands\<close>
  "tqdm_format_interval t =
     (if t < 0 \<or> 86400 * 365 < t then ''?''
      else
        let total_seconds = trunc_real t;
            hours = total_seconds div 3600;
            minutes = (total_seconds mod 3600) div 60;
            seconds = total_seconds mod 60;
            hours = (if 99999 < hours then 99999 else hours);
            minutes = (if 59 < minutes then 59 else minutes);
            seconds = (if 59 < seconds then 59 else seconds)
        in if 0 < hours
           then take 15 (printf_02d hours @ '':'' @ printf_02d minutes @ '':'' @ printf_02d seconds)
           else take 15 (printf_02d minutes @ '':'' @ printf_02d seconds))"

definition tqdm_format_num :: "real \<Rightarrow> string" where
  \<comment> \<open>the last branch of the source (\<open>%.3g\<close>) is taken by a NaN only, which no real
     number models: below, \<open>absn < 1000\<close> holds whenever the suffix is empty\<close>
  "tqdm_format_num x =
     (let absn = \<bar>x\<bar>;
          (sfx, scaled) =
            (if 1000000000000 \<le> absn \<and> absn < 1000000000000000 then (''t'', x / 1000000000000)
             else if 1000000000 \<le> absn then (''b'', x / 1000000000)
             else if 1000000 \<le> absn then (''m'', x / 1000000)
             else if 1000 \<le> absn then (''k'', x / 1000)
             else ('''', x))
      in if sfx \<noteq> '''' then
           take 31 ((if 100 \<le> \<bar>scaled\<bar> then printf_f 0 scaled
                     else if 10 \<le> \<bar>scaled\<bar> then printf_f 1 scaled
                     else printf_f 2 scaled) @ sfx)
         else if x = of_int (trunc_real x) then take 31 (int_dec (trunc_real x))
         else take 31 (printf_f 0 x))"

section \<open>The meter renderer\<close>

definition tqdm_unicode_blocks :: "string list" where
  \<comment> \<open>a space, then the seven partial blocks U+258F .. U+2589 and the full block U+2588,
     in UTF-8\<close>
  "tqdm_unicode_blocks =
     ['' '',
      [CHR 0xE2, CHR 0x96, CHR 0x8F], [CHR 0xE2, CHR 0x96, CHR 0x8E],
      [CHR 0xE2, CHR 0x96, CHR 0x8D], [CHR 0xE2, CHR 0x96, CHR 0x8C],
      [CHR 0xE2, CHR 0x96, CHR 0x8B], [CHR 0xE2, CHR 0x96, CHR 0x8A],
      [CHR 0xE2, CHR 0x96, CHR 0x89], [CHR 0xE2, CHR 0x96, CHR 0x88]]"

definition meter_template ::
  "size_t \<Rightarrow> size_t \<Rightarrow> real \<Rightarrow> string option \<Rightarrow> real \<Rightarrow> string option \<Rightarrow> string" where
  \<comment> \<open>the reduced layout written when \<open>bar_format\<close> is a non-empty string\<close>
  "meter_template n tot elapsed pfx rate postfix =
     take 255 (opt_str pfx @ '': '' @ int_dec (uint n) @ ''/'' @ int_dec (uint tot) @ '' ['' @
               printf_f 1 elapsed @ ''s, '' @ printf_f 1 rate @ ''it/s] '' @ opt_str postfix)"

definition meter_percentage :: "size_t \<Rightarrow> size_t \<Rightarrow> fault + real" where
  "meter_percentage n tot =
     fault_bind (if 0 < tot then fdiv (100 * real_of_int (uint n)) (real_of_int (uint tot)) else Inr 0)
       (\<lambda>percentage. Inr (if 100 < percentage then 100 else percentage))"

definition meter_remaining :: "size_t \<Rightarrow> size_t \<Rightarrow> real \<Rightarrow> fault + string" where
  "meter_remaining n tot rate =
     (if 0 < tot \<and> 0 < n \<and> 0 < rate \<and> n < tot
      then fault_bind (fdiv (real_of_int (uint (tot - n))) rate)
             (\<lambda>remaining. Inr (tqdm_format_interval remaining))
      else Inr ''?'')"

definition meter_counts ::
  "size_t \<Rightarrow> size_t \<Rightarrow> string option \<Rightarrow> bool \<Rightarrow> real \<Rightarrow> int \<Rightarrow> fault + (string \<times> string \<times> string)" where
  \<comment> \<open>\<open>n_str\<close>, \<open>total_str\<close> and \<open>rate_str\<close>\<close>
  "meter_counts n tot unit unit_scale rate unit_divisor =
     (if unit_scale then
        fault_bind (tqdm_format_sizeof (real_of_int (uint n)) unit unit_divisor) (\<lambda>n_str.
        fault_bind (if 0 < tot then tqdm_format_sizeof (real_of_int (uint tot)) unit unit_divisor
                    else Inr ''?'') (\<lambda>total_str.
        fault_bind (if rate \<le> 0 then Inr ''?'' else tqdm_format_sizeof rate unit unit_divisor)
          (\<lambda>rate_str. Inr (n_str, total_str, rate_str))))
      else
        Inr (tqdm_format_num (real_of_int (uint n)),
             (if 0 < tot then tqdm_format_num (real_of_int (uint tot)) else ''?''),
             (if rate \<le> 0 then ''?'' else tqdm_format_num rate)))"

definition meter_bar_width :: "int \<Rightarrow> string option \<Rightarrow> string option \<Rightarrow> int" where
  \<comment> \<open>description and postfix are shorter than \<open>2^31 - 50\<close> bytes, so that
     \<open>estimated_fixed\<close> does not leave \<open>int\<close>\<close>
  "meter_bar_width ncols pfx postfix =
     (let estimated_fixed = 50 + int (length (opt_str pfx)) + int (length (opt_str postfix));
          bar_width = (if estimated_fixed < ncols then ncols - estimated_fixed else 10);
          bar_width = (if bar_width < 1 then 1 else bar_width)
      in if 100 < bar_width then 100 else bar_width)"

definition bar_ascii :: "size_t \<Rightarrow> size_t \<Rightarrow> int \<Rightarrow> fault + string" where
  \<comment> \<open>\<open>(int)((double)bar_width * n / total)\<close>: both counts are converted to \<open>double\<close>, and
     the product and the quotient are rounded. \<open>filled\<close> is never negative, the operands
     of the quotient being non-negative.\<close>
  "bar_ascii n tot bar_width =
     fault_bind (if 0 < tot
                 then fault_bind
                        (fdiv (double_round (real_of_int bar_width * size_to_double n))
                           (size_to_double tot))
                        (\<lambda>quotient. double_to_int (double_round quotient))
                 else Inr 0) (\<lambda>filled.
       let filled = (if bar_width < filled then bar_width else filled)
       in Inr (replicate (nat filled) CHR ''#'' @ replicate (nat (bar_width - filled)) CHR '' ''))"

definition bar_glyph_cells :: "size_t \<Rightarrow> size_t \<Rightarrow> int \<Rightarrow> string list" where
  \<comment> \<open>the glyphs that the three loops of the non-ASCII branch copy, in order\<close>
  "bar_glyph_cells n tot bar_width =
     (if 0 < tot \<and> 0 < n then
        let progress_fixed = size_to_int ((n * 8 * word_of_int bar_width) div tot);
            filled_full = c_div progress_fixed 8;
            partial = c_mod progress_fixed 8;
            (filled_full, partial) =
               (if bar_width < filled_full then (bar_width, 0) else (filled_full, partial));
            full_cells = replicate (nat (min filled_full bar_width)) (tqdm_unicode_blocks ! 8);
            (partial_cells, filled_full) =
               (if filled_full < bar_width \<and> 0 < partial
                then ([tqdm_unicode_blocks ! nat partial], filled_full + 1)
                else ([], filled_full))
        in full_cells @ partial_cells @
           replicate (nat (bar_width - filled_full)) (tqdm_unicode_blocks ! 0)
      else replicate (nat bar_width) (tqdm_unicode_blocks ! 0))"

definition bar_glyph :: "size_t \<Rightarrow> size_t \<Rightarrow> int \<Rightarrow> fault + string" where
  \<comment> \<open>the buffer holds \<open>bar_width * 4 + 1\<close> bytes, the last one for the terminator\<close>
  "bar_glyph n tot bar_width =
     (let bar = concat (bar_glyph_cells n tot bar_width)
      in if int (length bar) + 1 \<le> bar_width * 4 + 1 then Inr bar else Inl BufferOverflow)"

definition meter_bar :: "bool \<Rightarrow> size_t \<Rightarrow> size_t \<Rightarrow> int \<Rightarrow> fault + string" where
  "meter_bar ascii n tot bar_width =
     (if ascii then bar_ascii n tot bar_width else bar_glyph n tot bar_width)"

definition meter_line ::
  "string option \<Rightarrow> real \<Rightarrow> string \<Rightarrow> string \<Rightarrow> string \<Rightarrow> string \<Rightarrow> string \<Rightarrow> string \<Rightarrow>
   string option \<Rightarrow> bool \<Rightarrow> string option \<Rightarrow> string" where
  \<comment> \<open>the closing \<open>snprintf\<close> of \<open>tqdm_format_meter\<close>, into a buffer of 1024 bytes\<close>
  "meter_line pfx percentage bar n_str total_str elapsed_str remaining_str rate_str unit
       unit_scale postfix =
     (let desc_part = opt_str pfx;
          desc_sep = (if desc_part \<noteq> '''' then '': '' else '''');
          unit_str = (case unit of None \<Rightarrow> ''it'' | Some u \<Rightarrow> u);
          rate_unit_suffix = (if unit_scale then '''' else unit_str);
          postfix_str = opt_str postfix;
          postfix_sep = (if postfix_str \<noteq> '''' then '' '' else '''')
      in take 1023
           (desc_part @ desc_sep @ pad_left CHR '' '' 3 (printf_f 0 percentage) @ ''%|'' @
            bar @ ''| '' @ n_str @ ''/'' @ total_str @ '' ['' @ elapsed_str @ ''<'' @
            remaining_str @ '', '' @ rate_str @ rate_unit_suffix @ ''/s]'' @
            postfix_sep @ postfix_str))"

definition tqdm_format_meter ::
  "size_t \<Rightarrow> size_t \<Rightarrow> real \<Rightarrow> int \<Rightarrow> string option \<Rightarrow> bool \<Rightarrow> string option \<Rightarrow> bool \<Rightarrow> real \<Rightarrow>
   string option \<Rightarrow> string option \<Rightarrow> int \<Rightarrow> fault + string" where
  \<comment> \<open>the parameters \<open>initial\<close> and \<open>colour\<close> of the source are unused and left out\<close>
  "tqdm_format_meter n tot elapsed ncols pfx ascii unit unit_scale rate bar_format postfix
       unit_divisor =
     (if bar_format \<noteq> None \<and> bar_format \<noteq> Some ''''
      then Inr (meter_template n tot elapsed pfx rate postfix)
      else
        fault_bind (meter_percentage n tot) (\<lambda>percentage.
        fault_bind (meter_remaining n tot rate) (\<lambda>remaining_str.
        let elapsed_str = tqdm_format_interval elapsed in
        fault_bind (meter_counts n tot unit unit_scale rate unit_divisor)
          (\<lambda>(n_str, total_str, rate_str).
        fault_bind (meter_bar ascii n tot (meter_bar_width ncols pfx postfix)) (\<lambda>bar.
        Inr (meter_line pfx percentage bar n_str total_str elapsed_str remaining_str
               rate_str unit unit_scale postfix))))))"

section \<open>The progress instance\<close>

text \<open>
  The fields of \<open>struct tqdm_params_s\<close> and \<open>struct tqdm_s\<close>, each under its source name
  behind the prefix \<open>p_\<close> or \<open>t_\<close>. The output stream \<open>file\<close> is replaced by the list of
  strings that an operation writes to it, in order; the mutex and the display buffer,
  which no operation below reads, are left out. The state that \<open>iterator_state\<close> points to
  is kept in the instance, \<open>None\<close> for a \<open>NULL\<close> pointer, and \<open>next_func\<close> returns the new
  state next to its result.
\<close>

record tqdm_params_t =
  p_desc :: "string option"
  p_total :: size_t
  p_leave :: bool
  p_ncols :: int
  p_mininterval :: real
  p_miniters :: unsigned
  p_ascii :: bool
  p_disable :: bool
  p_unit :: "string option"
  p_unit_scale :: bool
  p_dynamic_ncols :: bool
  p_smoothing :: real
  p_bar_format :: "string option"
  p_initial :: size_t
  p_position :: int
  p_postfix :: "string option"
  p_unit_divisor :: real
  p_colour :: "string option"
  p_delay :: real

record 'it tqdm_t =
  t_current :: addr
  t_end :: addr
  t_element_size :: size_t
  t_n :: size_t
  t_count :: size_t
  t_params :: tqdm_params_t
  t_start_time :: real
  t_last_print_time :: real
  t_last_print_count :: size_t
  t_closed :: bool
  t_paused :: bool
  t_pause_start :: real
  t_total_pause_time :: real
  t_rate_history :: "real list"
  t_rate_history_size :: size_t
  t_rate_history_idx :: size_t
  t_cached_rate :: real
  t_last_rate_calc_time :: real
  t_last_rate_calc_n :: size_t
  t_cached_terminal_width :: int
  t_last_terminal_check :: real
  t_iterator_mode :: bool
  t_iterator_state :: "'it option"
  t_next_func :: "('it option \<Rightarrow> addr \<times> 'it option) option"
  t_has_next_func :: "('it option \<Rightarrow> bool) option"

text \<open>
  What the system returns during one operation: the readings of
  \<open>current_time_seconds\<close>, which an update takes three times (in
  \<open>tqdm_update_dynamic_miniters\<close>, before the gates, and in
  \<open>tqdm_print_progress\<close>), and the width that \<open>get_terminal_width\<close> reports.
\<close>

record sys_reads =
  now_adapt :: real
  now_gate :: real
  now_print :: real
  term_width :: int

definition tqdm_update_dynamic_miniters :: "real \<Rightarrow> 'it tqdm_t \<Rightarrow> 'it tqdm_t" where
  "tqdm_update_dynamic_miniters current_time s =
     (let time_diff = current_time - t_last_print_time s
      in if 0 < time_diff \<and> p_miniters (t_params s) = 0 then
           let count_diff = t_n s - t_last_print_count s
           in if 0 < count_diff \<and> time_diff < p_mininterval (t_params s)
              then s\<lparr>t_params := (t_params s)\<lparr>p_miniters := ucast (count_diff * 2)\<rparr>\<rparr>
              else s
         else s)"

definition terminal_cols :: "real \<Rightarrow> int \<Rightarrow> 'it tqdm_t \<Rightarrow> int \<times> 'it tqdm_t" where
  \<comment> \<open>the choice of \<open>ncols\<close> in \<open>tqdm_print_progress\<close>: the configured width, or the
     terminal's, probed at most once a second\<close>
  "terminal_cols current_time cols s =
     (let ncols = p_ncols (t_params s)
      in if ncols \<le> 0 \<or> p_dynamic_ncols (t_params s) then
           if current_time - t_last_terminal_check s < 1
           then (t_cached_terminal_width s, s)
           else (cols, s\<lparr>t_cached_terminal_width := cols,
                          t_last_terminal_check := current_time\<rparr>)
         else (ncols, s))"

definition tqdm_print_progress ::
  "real \<Rightarrow> int \<Rightarrow> 'it tqdm_t \<Rightarrow> fault + ('it tqdm_t \<times> string list)" where
  "tqdm_print_progress current_time cols s =
     (if p_disable (t_params s) \<or> t_closed s then Inr (s, [])
      else
        let elapsed = current_time - t_start_time s - t_total_pause_time s;
            rate = (if 1 / 1000000 < elapsed then real_of_int (uint (t_n s)) / elapsed else 0);
            (ncols, s) = terminal_cols current_time cols s
        in fault_bind (double_to_int (p_unit_divisor (t_params s))) (\<lambda>unit_divisor.
           fault_bind (tqdm_format_meter (t_n s) (p_total (t_params s)) elapsed ncols
                         (p_desc (t_params s)) (p_ascii (t_params s)) (p_unit (t_params s))
                         (p_unit_scale (t_params s)) rate (p_bar_format (t_params s))
                         (p_postfix (t_params s)) unit_divisor) (\<lambda>meter.
           Inr (s\<lparr>t_last_print_time := current_time, t_last_print_count := t_n s\<rparr>,
                [CHR 0x0D # meter]))))"

definition tqdm_has_next :: "'it tqdm_t \<Rightarrow> fault + bool" where
  "tqdm_has_next s =
     (if t_closed s then Inr False
      else if t_iterator_mode s then
        (case t_has_next_func s of
           None \<Rightarrow> Inl NullCall
         | Some has_next \<Rightarrow> Inr (has_next (t_iterator_state s)))
      else if t_end s \<noteq> 0 then Inr (t_current s < t_end s)
      else if 0 < p_total (t_params s) then Inr (t_n s < p_total (t_params s))
      else Inr True)"

definition tqdm_next ::
  "sys_reads \<Rightarrow> 'it tqdm_t \<Rightarrow> fault + (addr \<times> 'it tqdm_t \<times> string list)" where
  \<comment> \<open>the first component is the pointer returned, \<open>0\<close> for \<open>NULL\<close>\<close>
  "tqdm_next rd s =
     fault_bind (tqdm_has_next s) (\<lambda>more.
       if \<not> more then Inr (0, s, [])
       else
         fault_bind
           (if t_iterator_mode s then
              (case t_next_func s of
                 None \<Rightarrow> Inl NullCall
               | Some next_item \<Rightarrow>
                   (case next_item (t_iterator_state s) of
                      (result, st) \<Rightarrow> Inr (result, s\<lparr>t_iterator_state := st\<rparr>)))
            else Inr (t_current s, s\<lparr>t_current := t_current s + t_element_size s\<rparr>))
           (\<lambda>(result, s).
              let s = s\<lparr>t_count := t_count s + 1\<rparr>;
                  s = s\<lparr>t_n := t_n s + 1\<rparr>;
                  s = tqdm_update_dynamic_miniters (now_adapt rd) s;
                  current_time = now_gate rd;
                  is_complete = (0 < p_total (t_params s) \<and> p_total (t_params s) \<le> t_n s);
                  should_print =
                     ((is_complete \<or> p_miniters (t_params s) = 0 \<or>
                       ucast (p_miniters (t_params s)) \<le> t_n s - t_last_print_count s) \<and>
                      (is_complete \<or>
                       p_mininterval (t_params s) \<le> current_time - t_last_print_time s))
              in if should_print \<and> \<not> p_disable (t_params s)
                 then fault_bind (tqdm_print_progress (now_print rd) (term_width rd) s)
                        (\<lambda>(s, out). Inr (result, s, out))
                 else Inr (result, s, [])))"

definition tqdm_update_n ::
  "sys_reads \<Rightarrow> 'it tqdm_t \<Rightarrow> size_t \<Rightarrow> fault + ('it tqdm_t \<times> string list)" where
  "tqdm_update_n rd s k =
     (if t_closed s \<or> p_disable (t_params s) then Inr (s, [])
      else
        let s = s\<lparr>t_n := t_n s + k\<rparr>;
            s = tqdm_update_dynamic_miniters (now_adapt rd) s;
            current_time = now_gate rd;
            is_complete = (0 < p_total (t_params s) \<and> p_total (t_params s) \<le> t_n s);
            should_print =
               ((is_complete \<or> p_miniters (t_params s) = 0 \<or>
                 ucast (p_miniters (t_params s)) \<le> t_n s - t_last_print_count s) \<and>
                (is_complete \<or>
                 p_mininterval (t_params s) \<le> current_time - t_last_print_time s))
        in if should_print then tqdm_print_progress (now_print rd) (term_width rd) s
           else Inr (s, []))"

definition tqdm_update :: "sys_reads \<Rightarrow> 'it tqdm_t \<Rightarrow> fault + ('it tqdm_t \<times> string list)" where
  "tqdm_update rd s = tqdm_update_n rd s 1"

definition update_to_delta :: "'it tqdm_t \<Rightarrow> size_t \<Rightarrow> size_t" where
  \<comment> \<open>the local \<open>delta\<close> of \<open>tqdm_update_to\<close>\<close>
  "update_to_delta s v = (if t_n s < v then v - t_n s else 0)"

definition tqdm_update_to ::
  "sys_reads \<Rightarrow> 'it tqdm_t \<Rightarrow> size_t \<Rightarrow> fault + (bool \<times> 'it tqdm_t \<times> string list)" where
  "tqdm_update_to rd s v =
     (if t_closed s \<or> p_disable (t_params s) then Inr (False, s, [])
      else
        let delta = update_to_delta s v;
            s = s\<lparr>t_n := v\<rparr>;
            s = tqdm_update_dynamic_miniters (now_adapt rd) s;
            current_time = now_gate rd;
            is_complete = (0 < p_total (t_params s) \<and> p_total (t_params s) \<le> t_n s);
            should_print =
               ((is_complete \<or> p_miniters (t_params s) = 0 \<or>
                 ucast (p_miniters (t_params s)) \<le> delta) \<and>
                (is_complete \<or>
                 p_mininterval (t_params s) \<le> current_time - t_last_print_time s))
        in if should_print
           then fault_bind (tqdm_print_progress (now_print rd) (term_width rd) s)
                  (\<lambda>(s, out). Inr (True, s, out))
           else Inr (False, s, []))"

definition tqdm_clear :: "'it tqdm_t \<Rightarrow> string list" where
  \<comment> \<open>carriage return, then the escape sequence that erases the line\<close>
  "tqdm_clear s =
     (if p_disable (t_params s) then [] else [[CHR 0x0D, CHR 0x1B, CHR ''['', CHR ''K'']])"

definition tqdm_close ::
  "sys_reads \<Rightarrow> 'it tqdm_t \<Rightarrow> fault + ('it tqdm_t \<times> string list)" where
  "tqdm_close rd s =
     (if t_closed s then Inr (s, [])
      else if p_leave (t_params s) \<and> \<not> p_disable (t_params s) then
        fault_bind (tqdm_print_progress (now_print rd) (term_width rd) s)
          (\<lambda>(s, out). Inr (s\<lparr>t_closed := True\<rparr>, out @ [[CHR 0x0A]]))
      else if \<not> p_leave (t_params s) then Inr (s\<lparr>t_closed := True\<rparr>, tqdm_clear s)
      else Inr (s\<lparr>t_closed := True\<rparr>, []))"

definition tqdm_refresh ::
  "sys_reads \<Rightarrow> 'it tqdm_t \<Rightarrow> fault + ('it tqdm_t \<times> string list)" where
  "tqdm_refresh rd s =
     (if t_closed s \<or> p_disable (t_params s) then Inr (s, [])
      else tqdm_print_progress (now_print rd) (term_width rd) s)"

definition memset_zero :: "nat \<Rightarrow> real list \<Rightarrow> real list" where
  \<comment> \<open>\<open>memset(buf, 0, k * sizeof(double))\<close> on a buffer that holds at least \<open>k\<close> entries,
     as the one that \<open>tqdm_create_with_params\<close> allocates does\<close>
  "memset_zero k buf = replicate (min k (length buf)) 0 @ drop k buf"

definition tqdm_reset :: "real \<Rightarrow> 'it tqdm_t \<Rightarrow> size_t \<Rightarrow> 'it tqdm_t" where
  \<comment> \<open>the first argument is the reading of \<open>current_time_seconds\<close>\<close>
  "tqdm_reset current_time s tot =
     (let s = s\<lparr>t_n := p_initial (t_params s)\<rparr>;
          s = s\<lparr>t_count := 0\<rparr>;
          s = s\<lparr>t_start_time := current_time\<rparr>;
          s = s\<lparr>t_last_print_time := t_start_time s\<rparr>;
          s = s\<lparr>t_last_print_count := t_n s\<rparr>;
          s = s\<lparr>t_total_pause_time := 0\<rparr>;
          s = s\<lparr>t_paused := False\<rparr>;
          s = (if 0 < tot then s\<lparr>t_params := (t_params s)\<lparr>p_total := tot\<rparr>\<rparr> else s);
          s = s\<lparr>t_rate_history :=
                  memset_zero (unat (t_rate_history_size s)) (t_rate_history s)\<rparr>
      in s\<lparr>t_rate_history_idx := 0\<rparr>)"

subsection \<open>Construction\<close>

text \<open>
  The environment as \<open>tqdm_load_env_vars\<close> reads it: for each variable that is set, its
  text, or the number that \<open>atof\<close> or \<open>atoi\<close> makes of it where the source converts it.
  The assignment then converts the number to the type of the field: a \<open>double\<close> is rounded
  to \<open>float\<close>, an \<open>int\<close> is reduced to \<open>unsigned\<close>.
\<close>

record environment =
  TQDM_MININTERVAL :: "real option"
  TQDM_MINITERS :: "int option"
  TQDM_ASCII :: "string option"
  TQDM_DISABLE :: "string option"
  TQDM_UNIT :: "string option"
  TQDM_UNIT_SCALE :: "string option"
  TQDM_DYNAMIC_NCOLS :: "string option"
  TQDM_SMOOTHING :: "real option"
  TQDM_NCOLS :: "int option"
  TQDM_COLOUR :: "string option"
  TQDM_DELAY :: "real option"

definition c_tolower :: "char \<Rightarrow> char" where
  "c_tolower c =
     (let k = (of_char c :: nat) in if 65 \<le> k \<and> k \<le> 90 then char_of (k + 32) else c)"

definition env_flag :: "string \<Rightarrow> bool" where
  \<comment> \<open>\<open>strcasecmp(env_val, "true") == 0 || strcmp(env_val, "1") == 0\<close>\<close>
  "env_flag env_val = (map c_tolower env_val = ''true'' \<or> env_val = ''1'')"

definition float_0_1 :: real where
  \<comment> \<open>the constant \<open>0.1f\<close>: the \<open>float\<close> nearest to one tenth\<close>
  "float_0_1 = 13421773 / 134217728"

definition float_0_3 :: real where
  \<comment> \<open>the constant \<open>0.3f\<close>\<close>
  "float_0_3 = 5033165 / 16777216"

definition tqdm_default_params :: tqdm_params_t where
  "tqdm_default_params =
     \<lparr>p_desc = None, p_total = 0, p_leave = True, p_ncols = - 1,
      p_mininterval = float_0_1, p_miniters = 0, p_ascii = False, p_disable = False,
      p_unit = Some ''it'', p_unit_scale = False, p_dynamic_ncols = False,
      p_smoothing = float_0_3,
      p_bar_format = None, p_initial = 0, p_position = - 1, p_postfix = None,
      p_unit_divisor = 1000, p_colour = None, p_delay = 0\<rparr>"

definition env_set ::
  "'a option \<Rightarrow> ('a \<Rightarrow> tqdm_params_t \<Rightarrow> tqdm_params_t) \<Rightarrow> tqdm_params_t \<Rightarrow> tqdm_params_t" where
  \<comment> \<open>\<open>if ((env_val = getenv(...)) != NULL) { ... }\<close>\<close>
  "env_set env_val assign params =
     (case env_val of None \<Rightarrow> params | Some x \<Rightarrow> assign x params)"

definition tqdm_load_env_vars :: "environment \<Rightarrow> tqdm_params_t \<Rightarrow> tqdm_params_t" where
  \<comment> \<open>the eleven \<open>if\<close> statements, run in the order of the source\<close>
  "tqdm_load_env_vars env params =
     fold (\<lambda>step params. step params)
       [env_set (TQDM_MININTERVAL env)
          (\<lambda>x params. params\<lparr>p_mininterval := float_round x\<rparr>),
        env_set (TQDM_MINITERS env) (\<lambda>i params. params\<lparr>p_miniters := word_of_int i\<rparr>),
        env_set (TQDM_ASCII env) (\<lambda>v params. params\<lparr>p_ascii := env_flag v\<rparr>),
        env_set (TQDM_DISABLE env) (\<lambda>v params. params\<lparr>p_disable := env_flag v\<rparr>),
        env_set (TQDM_UNIT env) (\<lambda>v params. params\<lparr>p_unit := Some v\<rparr>),
        env_set (TQDM_UNIT_SCALE env) (\<lambda>v params. params\<lparr>p_unit_scale := env_flag v\<rparr>),
        env_set (TQDM_DYNAMIC_NCOLS env) (\<lambda>v params. params\<lparr>p_dynamic_ncols := env_flag v\<rparr>),
        env_set (TQDM_SMOOTHING env) (\<lambda>x params. params\<lparr>p_smoothing := float_round x\<rparr>),
        env_set (TQDM_NCOLS env) (\<lambda>i params. params\<lparr>p_ncols := i\<rparr>),
        env_set (TQDM_COLOUR env) (\<lambda>v params. params\<lparr>p_colour := Some v\<rparr>),
        env_set (TQDM_DELAY env) (\<lambda>x params. params\<lparr>p_delay := float_round x\<rparr>)]
       params"

definition sanitize_params :: "tqdm_params_t \<Rightarrow> tqdm_params_t" where
  \<comment> \<open>the three defaults that \<open>tqdm_create_with_params\<close> puts in place of invalid values\<close>
  "sanitize_params params =
     (let params = (if p_mininterval params < 0 then params\<lparr>p_mininterval := float_0_1\<rparr>
                    else params);
          params = (if p_smoothing params < 0 \<or> 1 < p_smoothing params
                    then params\<lparr>p_smoothing := float_0_3\<rparr> else params)
      in if p_unit_divisor params \<le> 0 then params\<lparr>p_unit_divisor := 1000\<rparr> else params)"

definition tqdm_create_with_params ::
  "bool \<Rightarrow> environment \<Rightarrow> real \<Rightarrow> addr \<Rightarrow> addr \<Rightarrow> size_t \<Rightarrow> tqdm_params_t \<Rightarrow> 'it tqdm_t option" where
  \<comment> \<open>\<open>alloc_ok\<close> says whether every allocation succeeds; if one fails the source frees
     what it has and returns \<open>NULL\<close>. The start-up sleep changes no state.\<close>
  "tqdm_create_with_params alloc_ok env current_time begin end_ptr element_size user_params =
     (if \<not> alloc_ok then None
      else
        let params = sanitize_params (tqdm_load_env_vars env user_params);
            params = (if p_total params = 0 \<and> begin \<noteq> 0 \<and> end_ptr \<noteq> 0 \<and> 0 < element_size
                      then params\<lparr>p_total := (end_ptr - begin) div element_size\<rparr>
                      else params)
        in Some \<lparr>t_current = begin, t_end = end_ptr, t_element_size = element_size,
                 t_n = p_initial params, t_count = 0, t_params = params,
                 t_start_time = current_time, t_last_print_time = current_time,
                 t_last_print_count = p_initial params, t_closed = False, t_paused = False,
                 t_pause_start = 0, t_total_pause_time = 0,
                 t_rate_history = replicate 10 0, t_rate_history_size = 10,
                 t_rate_history_idx = 0, t_cached_rate = 0, t_last_rate_calc_time = 0,
                 t_last_rate_calc_n = 0, t_cached_terminal_width = 80,
                 t_last_terminal_check = 0, t_iterator_mode = False,
                 t_iterator_state = None, t_next_func = None, t_has_next_func = None\<rparr>)"

definition tqdm_create ::
  "bool \<Rightarrow> environment \<Rightarrow> real \<Rightarrow> addr \<Rightarrow> addr \<Rightarrow> size_t \<Rightarrow> 'it tqdm_t option" where
  "tqdm_create alloc_ok env current_time begin end_ptr element_size =
     tqdm_create_with_params alloc_ok env current_time begin end_ptr element_size
       tqdm_default_params"

definition tqdm_create_with_total ::
  "bool \<Rightarrow> environment \<Rightarrow> real \<Rightarrow> addr \<Rightarrow> size_t \<Rightarrow> size_t \<Rightarrow> 'it tqdm_t option" where
  "tqdm_create_with_total alloc_ok env current_time begin tot element_size =
     tqdm_create_with_params alloc_ok env current_time begin 0 element_size
       (tqdm_default_params\<lparr>p_total := tot\<rparr>)"

definition tqdm_create_iterator ::
  "bool \<Rightarrow> environment \<Rightarrow> real \<Rightarrow> 'it option \<Rightarrow> ('it option \<Rightarrow> addr \<times> 'it option) option \<Rightarrow>
   ('it option \<Rightarrow> bool) option \<Rightarrow> 'it tqdm_t option" where
  "tqdm_create_iterator alloc_ok env current_time iterator_state next_func has_next_func =
     (case tqdm_create alloc_ok env current_time 0 0 0 of
        None \<Rightarrow> None
      | Some s \<Rightarrow>
          Some (s\<lparr>t_iterator_mode := True, t_iterator_state := iterator_state,
                   t_next_func := next_func, t_has_next_func := has_next_func\<rparr>))"

definition no_env :: environment where
  \<comment> \<open>no variable of the library is set\<close>
  "no_env =
     \<lparr>TQDM_MININTERVAL = None, TQDM_MINITERS = None, TQDM_ASCII = None, TQDM_DISABLE = None,
      TQDM_UNIT = None, TQDM_UNIT_SCALE = None, TQDM_DYNAMIC_NCOLS = None,
      TQDM_SMOOTHING = None, TQDM_NCOLS = None, TQDM_COLOUR = None, TQDM_DELAY = None\<rparr>"

subsection \<open>The throttle policy in the words of the specification\<close>

text \<open>
  The decision rule of the specification, stated on an instance whose counter has
  already been advanced. The specification compares numbers: the count gate asks whether
  the counter exceeds the last-render count by the threshold at least, and the difference
  is negative when the counter stands below the last-render count.
\<close>

definition is_complete :: "'it tqdm_t \<Rightarrow> bool" where
  "is_complete s = (0 < p_total (t_params s) \<and> p_total (t_params s) \<le> t_n s)"

definition count_gate :: "'it tqdm_t \<Rightarrow> bool" where
  "count_gate s =
     (is_complete s \<or> p_miniters (t_params s) = 0 \<or>
      uint (p_miniters (t_params s)) \<le> uint (t_n s) - uint (t_last_print_count s))"

definition time_gate :: "real \<Rightarrow> 'it tqdm_t \<Rightarrow> bool" where
  "time_gate t s = (is_complete s \<or> p_mininterval (t_params s) \<le> t - t_last_print_time s)"

subsection \<open>Example runs\<close>

text \<open>
  Instances reached through the interface, used to instantiate the results below. The
  clock reads 10 s at construction; \<open>ex_reads\<close> is an operation 10 ms later, inside the
  default refresh interval \<open>0.1f\<close>, and \<open>ex_late\<close> one that runs a second after
  construction.
\<close>

definition ex_reads :: sys_reads where
  "ex_reads = \<lparr>now_adapt = 1001 / 100, now_gate = 1001 / 100, now_print = 1001 / 100,
               term_width = 80\<rparr>"

definition ex_late :: sys_reads where
  "ex_late = \<lparr>now_adapt = 11, now_gate = 11, now_print = 11, term_width = 80\<rparr>"

definition ex_reads_at :: "real \<Rightarrow> sys_reads" where
  \<comment> \<open>an operation during which every reading of the clock is \<open>t\<close>\<close>
  "ex_reads_at t = \<lparr>now_adapt = t, now_gate = t, now_print = t, term_width = 80\<rparr>"

definition ex_fresh :: "unit tqdm_t" where
  \<comment> \<open>\<open>tqdm_create_with_total(NULL, 100, 0)\<close>\<close>
  "ex_fresh = the (tqdm_create_with_total True no_env 10 0 100 0)"

definition ex_unbounded :: "unit tqdm_t" where
  \<comment> \<open>\<open>tqdm_create(NULL, NULL, 0)\<close>: the total is unknown\<close>
  "ex_unbounded = the (tqdm_create True no_env 10 0 0 0)"

definition ex_disabled :: "unit tqdm_t" where
  "ex_disabled = the (tqdm_create_with_params True no_env 10 0 0 1
                        (tqdm_default_params\<lparr>p_desc := Some ''Disabled'', p_disable := True\<rparr>))"

definition ex_transient :: "unit tqdm_t" where
  \<comment> \<open>a bar of 100 steps that is erased, not left on the screen, when it is closed\<close>
  "ex_transient = the (tqdm_create_with_params True no_env 10 0 0 1
                         (tqdm_default_params\<lparr>p_total := 100, p_leave := False\<rparr>))"

definition ex_closed :: "unit tqdm_t" where
  \<comment> \<open>\<open>ex_transient\<close> after \<open>tqdm_update_n(5)\<close> and \<open>tqdm_close\<close>\<close>
  "ex_closed =
     fst (projr (tqdm_close ex_late (fst (projr (tqdm_update_n ex_reads ex_transient 5)))))"

definition ex_thresholded :: "unit tqdm_t" where
  \<comment> \<open>an ASCII bar of 100 steps with a minimum-count threshold of 5\<close>
  "ex_thresholded = the (tqdm_create_with_params True no_env 10 0 0 0
                           (tqdm_default_params\<lparr>p_total := 100, p_miniters := 5,
                                                 p_ascii := True\<rparr>))"

definition ex_rewound :: "unit tqdm_t" where
  \<comment> \<open>\<open>ex_thresholded\<close> after \<open>tqdm_update_to(40)\<close> at 11 s, which renders, and
     \<open>tqdm_update_to(10)\<close> at 12 s, which does not\<close>
  "ex_rewound =
     fst (snd (projr (tqdm_update_to (ex_reads_at 12)
        (fst (snd (projr (tqdm_update_to (ex_reads_at 11) ex_thresholded 40)))) 10)))"

definition ex_rendered :: "unit tqdm_t" where
  \<comment> \<open>\<open>ex_fresh\<close> after \<open>tqdm_update_to(40)\<close> at 11 s, which renders\<close>
  "ex_rendered = fst (snd (projr (tqdm_update_to (ex_reads_at 11) ex_fresh 40)))"

definition ex_running :: "unit tqdm_t" where
  \<comment> \<open>\<open>ex_fresh\<close> after \<open>tqdm_update_n(5)\<close>, too early for a render\<close>
  "ex_running = fst (projr (tqdm_update_n ex_reads ex_fresh 5))"

section \<open>Properties\<close>

subsection \<open>Auxiliary facts\<close>

lemma terminal_cols_frame:
  "terminal_cols now cols s = (c, s1) \<Longrightarrow>
     t_params s1 = t_params s \<and> t_n s1 = t_n s \<and> t_closed s1 = t_closed s \<and>
     t_count s1 = t_count s \<and> t_start_time s1 = t_start_time s"
  by (auto simp: terminal_cols_def Let_def split: if_splits)

lemma print_progress_cases:
  assumes "\<not> t_closed s" "\<not> p_disable (t_params s)"
    and "tqdm_print_progress now cols s = Inr (s', out)"
  shows "\<exists>m. out = [CHR 0x0D # m] \<and>
           s' = (snd (terminal_cols now cols s))
                  \<lparr>t_last_print_time := now, t_last_print_count := t_n s\<rparr>"
proof (cases "terminal_cols now cols s")
  case (Pair c s1)
  with terminal_cols_frame [OF Pair] assms show ?thesis
    by (auto simp: tqdm_print_progress_def Let_def fault_bind_def split: sum.splits)
qed

lemma print_progress_frame:
  assumes "tqdm_print_progress now cols s = Inr (s', out)"
  shows "t_params s' = t_params s \<and> t_n s' = t_n s \<and> t_closed s' = t_closed s \<and>
         t_count s' = t_count s"
proof (cases "t_closed s \<or> p_disable (t_params s)")
  case True
  with assms show ?thesis by (auto simp: tqdm_print_progress_def)
next
  case False
  with print_progress_cases [OF _ _ assms] terminal_cols_frame [of now cols s]
  show ?thesis by (cases "terminal_cols now cols s") auto
qed

lemma print_progress_open:
  assumes "\<not> t_closed s" "\<not> p_disable (t_params s)"
    and "tqdm_print_progress now cols s = Inr (s', out)"
  shows "out \<noteq> [] \<and> t_last_print_time s' = now \<and> t_last_print_count s' = t_n s"
  using print_progress_cases [OF assms] by auto

lemma dynamic_miniters_frame:
  "t_n (tqdm_update_dynamic_miniters now s) = t_n s \<and>
   t_count (tqdm_update_dynamic_miniters now s) = t_count s \<and>
   t_closed (tqdm_update_dynamic_miniters now s) = t_closed s \<and>
   t_last_print_time (tqdm_update_dynamic_miniters now s) = t_last_print_time s \<and>
   t_last_print_count (tqdm_update_dynamic_miniters now s) = t_last_print_count s \<and>
   p_total (t_params (tqdm_update_dynamic_miniters now s)) = p_total (t_params s) \<and>
   p_disable (t_params (tqdm_update_dynamic_miniters now s)) = p_disable (t_params s) \<and>
   p_mininterval (t_params (tqdm_update_dynamic_miniters now s)) = p_mininterval (t_params s)"
  by (simp add: tqdm_update_dynamic_miniters_def Let_def)

lemma env_set_disable:
  "(\<And>x q. p_disable (f x q) = p_disable q) \<Longrightarrow> p_disable (env_set v f ps) = p_disable ps"
  by (cases v) (simp_all add: env_set_def)

lemma env_set_initial:
  "(\<And>x q. p_initial (f x q) = p_initial q) \<Longrightarrow> p_initial (env_set v f ps) = p_initial ps"
  by (cases v) (simp_all add: env_set_def)

lemma load_env_vars_frame:
  "p_disable (tqdm_load_env_vars env ps) =
     (case TQDM_DISABLE env of None \<Rightarrow> p_disable ps | Some x \<Rightarrow> env_flag x) \<and>
   p_initial (tqdm_load_env_vars env ps) = p_initial ps"
proof -
  have d: "p_disable (env_set v (\<lambda>x q. q\<lparr>p_disable := env_flag x\<rparr>) q) =
        (case v of None \<Rightarrow> p_disable q | Some x \<Rightarrow> env_flag x)" for v q
    by (cases v) (simp_all add: env_set_def)
  show ?thesis
    by (simp add: tqdm_load_env_vars_def env_set_disable env_set_initial d
             cong: option.case_cong)
qed

lemma sanitize_params_frame:
  "p_disable (sanitize_params ps) = p_disable ps \<and>
   p_initial (sanitize_params ps) = p_initial ps"
  by (simp add: sanitize_params_def Let_def)

lemma create_with_params_frame:
  assumes "tqdm_create_with_params alloc_ok env now b e sz ps = Some s"
  shows "p_disable (t_params s) =
           (case TQDM_DISABLE env of None \<Rightarrow> p_disable ps | Some x \<Rightarrow> env_flag x) \<and>
         t_n s = p_initial ps \<and> \<not> t_closed s"
proof -
  let ?ps = "sanitize_params (tqdm_load_env_vars env ps)"
  from assms have "p_disable (t_params s) = p_disable ?ps \<and> t_n s = p_initial ?ps \<and>
      \<not> t_closed s"
    by (cases alloc_ok; cases "p_total ?ps = 0 \<and> b \<noteq> 0 \<and> e \<noteq> 0 \<and> 0 < sz")
       (auto simp: tqdm_create_with_params_def Let_def)
  then show ?thesis
    by (simp add: sanitize_params_frame load_env_vars_frame)
qed

lemma update_n_unfold:
  assumes "\<not> t_closed s" "\<not> p_disable (t_params s)"
  shows "tqdm_update_n rd s k =
     (let s1 = tqdm_update_dynamic_miniters (now_adapt rd) (s\<lparr>t_n := t_n s + k\<rparr>)
      in if (is_complete s1 \<or> p_miniters (t_params s1) = 0 \<or>
             ucast (p_miniters (t_params s1)) \<le> t_n s1 - t_last_print_count s1) \<and>
            time_gate (now_gate rd) s1
         then tqdm_print_progress (now_print rd) (term_width rd) s1 else Inr (s1, []))"
  using assms
  by (simp add: tqdm_update_n_def Let_def time_gate_def is_complete_def)

lemma dynamic_miniters_eq:
  "tqdm_update_dynamic_miniters now s =
     s\<lparr>t_params := (t_params s)\<lparr>p_miniters :=
          (if p_miniters (t_params s) = 0 \<and> 0 < now - t_last_print_time s \<and>
              now - t_last_print_time s < p_mininterval (t_params s) \<and>
              t_n s - t_last_print_count s \<noteq> 0
           then ucast (2 * (t_n s - t_last_print_count s)) else p_miniters (t_params s))\<rparr>\<rparr>"
  by (simp add: tqdm_update_dynamic_miniters_def Let_def word_greater_zero_iff mult.commute)

lemma ex_fresh_open: "\<not> t_closed ex_fresh" "\<not> p_disable (t_params ex_fresh)"
  by code_simp+

lemma ex_fresh_returns:
  "\<not> isl (tqdm_update_n ex_late ex_fresh 5)" "\<not> isl (tqdm_update_n ex_reads ex_fresh 5)"
  by code_simp+

lemma update_to_unfold:
  assumes "\<not> t_closed s" "\<not> p_disable (t_params s)"
  shows "tqdm_update_to rd s v =
     (let s1 = tqdm_update_dynamic_miniters (now_adapt rd) (s\<lparr>t_n := v\<rparr>)
      in if (is_complete s1 \<or> p_miniters (t_params s1) = 0 \<or>
             ucast (p_miniters (t_params s1)) \<le> update_to_delta s v) \<and>
            time_gate (now_gate rd) s1
         then fault_bind (tqdm_print_progress (now_print rd) (term_width rd) s1)
                (\<lambda>(s, out). Inr (True, s, out))
         else Inr (False, s1, []))"
  using assms
  by (simp add: tqdm_update_to_def Let_def time_gate_def is_complete_def)

lemma update_to_delta_value:
  "uint (update_to_delta s v) = max 0 (uint v - uint (t_n s))"
  by (auto simp: update_to_delta_def uint_sub_if' word_less_def word_le_def)

lemma update_to_result:
  assumes "\<not> t_closed s" and "\<not> p_disable (t_params s)"
    and "tqdm_update_to rd s v = Inr (printed, s', out)"
  shows "t_n s' = v \<and> \<not> t_closed s' \<and> \<not> p_disable (t_params s')"
proof -
  define s1 where "s1 = tqdm_update_dynamic_miniters (now_adapt rd) (s\<lparr>t_n := v\<rparr>)"
  have s1: "t_n s1 = v" "\<not> t_closed s1" "\<not> p_disable (t_params s1)"
    using assms(1,2) by (simp_all add: s1_def dynamic_miniters_frame)
  show ?thesis
  proof (cases "(is_complete s1 \<or> p_miniters (t_params s1) = 0 \<or>
             ucast (p_miniters (t_params s1)) \<le> update_to_delta s v) \<and>
            time_gate (now_gate rd) s1")
    case False
    with update_to_unfold [OF assms(1,2), of rd v] assms(3) s1 show ?thesis
      by (auto simp: s1_def [symmetric] Let_def)
  next
    case True
    with update_to_unfold [OF assms(1,2), of rd v] assms(3)
    have "tqdm_print_progress (now_print rd) (term_width rd) s1 = Inr (s', out)"
      by (auto simp: s1_def [symmetric] Let_def fault_bind_def split: sum.splits)
    from print_progress_frame [OF this] s1 show ?thesis by simp
  qed
qed

lemma ex_fresh_update_to_returns:
  "\<not> isl (tqdm_update_to ex_late ex_fresh 40)"
  by code_simp

lemma update_n_params:
  assumes "tqdm_update_n rd s k = Inr (s', out)"
  shows "p_total (t_params s') = p_total (t_params s)"
proof (cases "t_closed s \<or> p_disable (t_params s)")
  case True
  with assms show ?thesis by (auto simp: tqdm_update_n_def)
next
  case False
  define s1 where "s1 = tqdm_update_dynamic_miniters (now_adapt rd) (s\<lparr>t_n := t_n s + k\<rparr>)"
  have t: "p_total (t_params s1) = p_total (t_params s)"
    by (simp add: s1_def dynamic_miniters_frame)
  from False update_n_unfold [of s rd k] assms
  have "s' = s1 \<or> tqdm_print_progress (now_print rd) (term_width rd) s1 = Inr (s', out)"
    by (auto simp: s1_def [symmetric] Let_def split: if_splits)
  with t print_progress_frame [of "now_print rd" "term_width rd" s1 s' out]
  show ?thesis by auto
qed

lemma update_to_params:
  assumes "tqdm_update_to rd s v = Inr (printed, s', out)"
  shows "p_total (t_params s') = p_total (t_params s)"
proof (cases "t_closed s \<or> p_disable (t_params s)")
  case True
  with assms show ?thesis by (auto simp: tqdm_update_to_def)
next
  case False
  define s1 where "s1 = tqdm_update_dynamic_miniters (now_adapt rd) (s\<lparr>t_n := v\<rparr>)"
  have t: "p_total (t_params s1) = p_total (t_params s)"
    by (simp add: s1_def dynamic_miniters_frame)
  from False update_to_unfold [of s rd v] assms
  have "s' = s1 \<or> tqdm_print_progress (now_print rd) (term_width rd) s1 = Inr (s', out)"
    by (auto simp: s1_def [symmetric] Let_def fault_bind_def split: if_splits sum.splits)
  with t print_progress_frame [of "now_print rd" "term_width rd" s1 s' out]
  show ?thesis by auto
qed

lemma close_params:
  assumes "tqdm_close rd s = Inr (s', out)"
  shows "p_total (t_params s') = p_total (t_params s)"
  using assms print_progress_frame [of "now_print rd" "term_width rd" s]
  by (auto simp: tqdm_close_def fault_bind_def split: if_splits sum.splits)

lemma refresh_params:
  assumes "tqdm_refresh rd s = Inr (s', out)"
  shows "p_total (t_params s') = p_total (t_params s)"
  using assms print_progress_frame [of "now_print rd" "term_width rd" s s' out]
  by (auto simp: tqdm_refresh_def split: if_splits)

lemma sizeof_loop_law:
  "0 < d \<Longrightarrow> sizeof_loop d num k = Some (num', k') \<Longrightarrow>
     k \<le> k' \<and> (k \<le> 8 \<longrightarrow> k' \<le> 8) \<and> num' = num / d ^ (k' - k) \<and>
     (num' < d \<or> 8 \<le> k') \<and> (\<forall>j<k' - k. d \<le> num / d ^ j)"
proof (induction d num k rule: sizeof_loop.induct)
  case (1 d num k)
  note pos = "1.prems"(1) and eq = "1.prems"(2)
  show ?case
  proof (cases "d \<le> num \<and> k < 8")
    case False
    with eq have "num' = num" "k' = k"
      by (simp_all add: sizeof_loop.simps [of d num k] split: if_splits)
    with False show ?thesis by auto
  next
    case True
    from pos have d0: "d \<noteq> 0" by simp
    from True d0 eq have rec: "sizeof_loop d (num / d) (k + 1) = Some (num', k')"
      by (simp add: sizeof_loop.simps [of d num k])
    have "k + 1 \<le> k' \<and> (k + 1 \<le> 8 \<longrightarrow> k' \<le> 8) \<and>
        num' = num / d / d ^ (k' - (k + 1)) \<and> (num' < d \<or> 8 \<le> k') \<and>
        (\<forall>j<k' - (k + 1). d \<le> num / d / d ^ j)"
      by (rule "1.IH" [OF True d0 pos rec])
    then have ih: "k + 1 \<le> k'" "k + 1 \<le> 8 \<longrightarrow> k' \<le> 8"
      "num' = num / d / d ^ (k' - (k + 1))"
      "num' < d \<or> 8 \<le> k'" "\<forall>j<k' - (k + 1). d \<le> num / d / d ^ j"
      by blast+
    from ih(1) have e: "k' - k = Suc (k' - (k + 1))" by simp
    have "num' = num / d ^ (k' - k)"
      unfolding e using ih(3) by (simp add: divide_divide_eq_left)
    moreover have "\<forall>j<k' - k. d \<le> num / d ^ j"
    proof (intro allI impI)
      fix j assume j: "j < k' - k"
      show "d \<le> num / d ^ j"
      proof (cases j)
        case 0
        with True show ?thesis by simp
      next
        case (Suc i)
        with j e have "i < k' - (k + 1)" by simp
        with ih(5) have "d \<le> num / d / d ^ i" by blast
        then show ?thesis by (simp add: Suc divide_divide_eq_left)
      qed
    qed
    ultimately show ?thesis using ih True by auto
  qed
qed

lemma sizeof_loop_total:
  "d \<noteq> 0 \<Longrightarrow> \<exists>num' k'. sizeof_loop d num k = Some (num', k')"
proof (induction d num k rule: sizeof_loop.induct)
  case (1 d num k)
  then show ?case
    by (cases "d \<le> num \<and> k < 8") (auto simp: sizeof_loop.simps [of d num k])
qed

lemma sizeof_text_shape:
  "sizeof_text num k sfx = Inr text \<Longrightarrow> \<exists>digits. text = take 63 (digits @ prefixes_table ! k @ sfx)"
  by (auto simp: sizeof_text_def split: sum.splits)

lemma sizeof_loop_once:
  assumes "1 < d" "1 \<le> x" "x < d"
  shows "sizeof_loop d (x * d) 0 = Some (x, 1)"
proof -
  from assms have "d \<le> x * d" by simp
  with assms show ?thesis
    by (simp add: sizeof_loop.simps [of d "x * d" 0] sizeof_loop.simps [of d x "Suc 0"])
qed


lemma float_constants:
  "float_round (1 / 10) = float_0_1" "float_round (3 / 10) = float_0_3"
  by code_simp+

lemma round_half_even_of_int: "round_half_even (of_int m) = m"
  by (simp add: round_half_even_def)

lemma bit_length_bound: "0 \<le> k \<Longrightarrow> k < 2 ^ j \<Longrightarrow> bit_length k \<le> int j"
proof (induction j arbitrary: k)
  case 0
  then have "k = 0" by simp
  then show ?case by (simp add: bit_length.simps [of 0])
next
  case (Suc j)
  show ?case
  proof (cases "0 < k")
    case False
    then show ?thesis by (simp add: bit_length.simps [of k])
  next
    case True
    from Suc.prems have "k div 2 < 2 ^ j" by simp
    moreover from True have "0 \<le> k div 2" by simp
    ultimately have "bit_length (k div 2) \<le> int j" by (rule Suc.IH [rotated])
    with True show ?thesis by (simp add: bit_length.simps [of k])
  qed
qed

lemma double_round_of_int:
  assumes "1 \<le> z" "z < 2 ^ 53"
  shows "double_round (of_int z) = of_int z"
proof -
  define e where "e = max (- 1074) (bit_length z - 53)"
  from assms have "bit_length z \<le> 53"
    using bit_length_bound [of z 53] by simp
  then have e: "e \<le> 0" by (simp add: e_def)
  define k where "k = nat (- e)"
  from e have p: "pow2 e = 1 / 2 ^ k"
    by (cases "e = 0") (simp_all add: pow2_def k_def)
  have a: "of_int z / pow2 e = (of_int (z * 2 ^ k) :: real)"
    by (simp add: p)
  have "round_half_even (of_int z / pow2 e) = z * 2 ^ k"
    unfolding a by (rule round_half_even_of_int)
  then have "of_int (round_half_even (of_int z / pow2 e)) * pow2 e = (of_int z :: real)"
    by (simp add: p)
  moreover from assms(1) have "binary_exponent \<bar>of_int z\<bar> = bit_length z"
    by (simp add: binary_exponent_def)
  ultimately show ?thesis
    using assms(1) by (simp add: double_round_def binary_round_def Let_def e_def)
qed

lemma bar_ascii_full:
  assumes "0 < tot" "1 \<le> W" "W < 2 ^ 31" "W * uint tot < 2 ^ 53"
  shows "bar_ascii tot tot W = Inr (replicate (nat W) CHR ''#'')"
proof -
  from assms(1) have t1: "1 \<le> uint tot"
    by (simp add: word_less_def)
  with assms(2) have "uint tot \<le> W * uint tot"
    by (simp add: mult_le_cancel_right1)
  with assms(4) have t2: "uint tot < 2 ^ 53" by linarith
  from t1 assms(2) have "W \<le> W * uint tot"
    by (simp add: mult_le_cancel_left1)
  with assms(2) have w1: "1 \<le> W * uint tot" by linarith
  from assms(3) have w2: "W < 2 ^ 53" by simp
  have c: "size_to_double tot = real_of_int (uint tot)"
    unfolding size_to_double_def using t1 t2 by (rule double_round_of_int)
  have pr: "double_round (real_of_int W * real_of_int (uint tot)) =
      real_of_int W * real_of_int (uint tot)"
    using double_round_of_int [OF w1 assms(4)] by simp
  from t1 have "uint tot \<noteq> 0" by simp
  then have nz: "real_of_int (uint tot) \<noteq> 0"
    unfolding of_int_eq_0_iff .
  then have q: "fdiv (real_of_int W * real_of_int (uint tot)) (real_of_int (uint tot)) =
      Inr (real_of_int W)"
    by (simp add: fdiv_def)
  have r: "double_round (real_of_int W) = real_of_int W"
    using assms(2) w2 by (rule double_round_of_int)
  from assms(2,3) have i: "double_to_int (real_of_int W) = Inr W"
    by (simp add: double_to_int_def trunc_real_def)
  have "fault_bind (fdiv (double_round (real_of_int W * size_to_double tot))
                     (size_to_double tot))
          (\<lambda>quotient. double_to_int (double_round quotient)) = Inr W"
    unfolding c unfolding pr unfolding q by (simp only: fault_bind_def sum.case r i)
  then have "bar_ascii tot tot W =
      fault_bind (Inr W) (\<lambda>filled.
        let filled = (if W < filled then W else filled)
        in Inr (replicate (nat filled) CHR ''#'' @ replicate (nat (W - filled)) CHR '' ''))"
    unfolding bar_ascii_def if_P [OF assms(1)] by (simp only:)
  then show ?thesis
    by (simp add: fault_bind_def)
qed

lemma bar_ascii_rounds_down:
  "bar_ascii 600555019062019 600555019062019 30 = Inr (replicate 29 CHR ''#'' @ '' '')"
  by code_simp

lemma glyph_progress_full:
  assumes "0 < tot" "0 \<le> W" "8 * W * uint tot < 2 ^ 64" "8 * W < 2 ^ 31"
  shows "size_to_int ((tot * 8 * word_of_int W) div tot) = 8 * W"
proof -
  from assms(1) have pos: "0 < uint tot" by (simp add: word_less_def)
  from assms(2,4) have "W < 2 ^ 64" by simp
  with assms(2) have w: "uint (word_of_int W :: size_t) = W"
    by (simp add: uint_word_of_int)
  have e: "uint tot * 8 * W = 8 * W * uint tot" by simp
  have "uint (tot * 8 * word_of_int W) = (uint tot * 8 * W) mod 2 ^ 64"
    by (simp add: uint_word_ariths w mod_mult_left_eq)
  also have "\<dots> = uint tot * 8 * W"
    unfolding e using assms(2,3) pos by simp
  finally have "uint ((tot * 8 * word_of_int W) div tot) = (uint tot * 8 * W) div uint tot"
    by (simp add: uint_div)
  also have "\<dots> = 8 * W" using pos by simp
  finally have u: "uint ((tot * 8 * word_of_int W) div tot) = 8 * W" .
  have "(tot * 8 * word_of_int W) div tot =
      word_of_int (uint ((tot * 8 * word_of_int W) div tot))"
    by simp
  also have "\<dots> = (word_of_int (8 * W) :: size_t)"
    by (simp only: u)
  finally have "size_to_int ((tot * 8 * word_of_int W) div tot) =
      sint (ucast (word_of_int (8 * W) :: size_t) :: 32 word)"
    by (simp only: size_to_int_def)
  also have "(ucast (word_of_int (8 * W) :: size_t) :: 32 word) = word_of_int (8 * W)"
    by (rule ucast_down_wi) (simp add: is_down)
  also have "sint (word_of_int (8 * W) :: 32 word) = (8 * W + 2 ^ 31) mod 2 ^ 32 - 2 ^ 31"
    unfolding int_word_sint by simp
  also from assms(2,4) have "(8 * W + 2 ^ 31) mod 2 ^ 32 = 8 * W + 2 ^ 31"
    by simp
  also have "8 * W + 2 ^ 31 - 2 ^ 31 = 8 * W"
    by simp
  finally show ?thesis .
qed

lemma full_cells_length:
  "length (concat (replicate k (tqdm_unicode_blocks ! 8))) = 3 * k"
  by (induction k) (simp_all add: tqdm_unicode_blocks_def)

lemma bar_glyph_full:
  assumes "0 < tot" "1 \<le> W" "8 * W * uint tot < 2 ^ 64" "8 * W < 2 ^ 31"
  shows "bar_glyph tot tot W = Inr (concat (replicate (nat W) (tqdm_unicode_blocks ! 8)))"
proof -
  from assms have p: "size_to_int ((tot * 8 * word_of_int W) div tot) = 8 * W"
    by (intro glyph_progress_full) simp_all
  from assms(2) have d: "c_div (8 * W) 8 = W" "c_mod (8 * W) 8 = 0"
    by (simp_all add: c_div_def c_mod_def)
  have cells: "bar_glyph_cells tot tot W = replicate (nat W) (tqdm_unicode_blocks ! 8)"
    using assms(1) by (simp add: bar_glyph_cells_def p d Let_def)
  from assms(2) show ?thesis
    by (simp add: bar_glyph_def cells Let_def full_cells_length)
qed

lemma ex_closed_closed: "t_closed ex_closed"
  by code_simp

lemma count_gate_agrees:
  assumes "t_last_print_count s \<le> t_n s"
  shows "(is_complete s \<or> p_miniters (t_params s) = 0 \<or>
          ucast (p_miniters (t_params s)) \<le> t_n s - t_last_print_count s) \<longleftrightarrow>
         count_gate s"
proof -
  from assms have "uint (t_n s - t_last_print_count s) =
      uint (t_n s) - uint (t_last_print_count s)"
    by (simp add: uint_sub_if' word_le_def)
  moreover have "uint (ucast (p_miniters (t_params s)) :: size_t) =
      uint (p_miniters (t_params s))"
    by (simp add: uint_up_ucast is_up)
  ultimately show ?thesis
    by (simp add: count_gate_def word_le_def)
qed

lemma update_n_renders_iff_gates:
  assumes "\<not> t_closed s" and "\<not> p_disable (t_params s)"
    and "t_last_print_count s \<le> t_n s + k"
  shows "let s1 = tqdm_update_dynamic_miniters (now_adapt rd) (s\<lparr>t_n := t_n s + k\<rparr>);
             gates = (count_gate s1 \<and> time_gate (now_gate rd) s1)
         in (case tqdm_update_n rd s k of
               Inr (s', out) \<Rightarrow>
                 (out \<noteq> [] \<longleftrightarrow> gates) \<and>
                 (gates \<longrightarrow> t_last_print_time s' = now_print rd \<and>
                             t_last_print_count s' = t_n s + k) \<and>
                 (\<not> gates \<longrightarrow> s' = s1 \<and> t_last_print_time s' = t_last_print_time s \<and>
                               t_last_print_count s' = t_last_print_count s) \<and>
                 t_n s' = t_n s + k
             | Inl f \<Rightarrow>
                 gates \<and> tqdm_print_progress (now_print rd) (term_width rd) s1 = Inl f)"
proof -
  define s1 where "s1 = tqdm_update_dynamic_miniters (now_adapt rd) (s\<lparr>t_n := t_n s + k\<rparr>)"
  have open1: "\<not> t_closed s1" "\<not> p_disable (t_params s1)"
    using assms(1,2) by (simp_all add: s1_def dynamic_miniters_frame)
  have fr: "t_n s1 = t_n s + k" "t_last_print_time s1 = t_last_print_time s"
    "t_last_print_count s1 = t_last_print_count s"
    by (simp_all add: s1_def dynamic_miniters_frame)
  from assms(3) fr have "t_last_print_count s1 \<le> t_n s1" by simp
  note g = count_gate_agrees [OF this]
  have unf: "tqdm_update_n rd s k =
      (if count_gate s1 \<and> time_gate (now_gate rd) s1
       then tqdm_print_progress (now_print rd) (term_width rd) s1 else Inr (s1, []))"
    using update_n_unfold [OF assms(1,2), of rd k] unfolding s1_def [symmetric] Let_def g .
  show ?thesis
  proof (cases "count_gate s1 \<and> time_gate (now_gate rd) s1")
    case False
    with unf fr show ?thesis by (auto simp: s1_def [symmetric] Let_def)
  next
    case True
    show ?thesis
    proof (cases "tqdm_print_progress (now_print rd) (term_width rd) s1")
      case (Inl f)
      with True unf show ?thesis by (simp add: s1_def [symmetric] Let_def)
    next
      case (Inr r)
      obtain s' out where r: "r = (s', out)" by (cases r)
      from print_progress_open [OF open1 Inr [unfolded r]]
        print_progress_frame [OF Inr [unfolded r]] True unf Inr r fr
      show ?thesis by (simp add: s1_def [symmetric] Let_def)
    qed
  qed
qed

lemma ex_rewound_reached:
  "ex_rewound = ex_thresholded\<lparr>t_n := 10, t_last_print_time := 11, t_last_print_count := 40,
                                t_last_terminal_check := 11\<rparr>"
  by code_simp

lemma uint_ucast_double:
  "uint (ucast (2 * d :: size_t) :: unsigned) = (2 * uint d) mod 2 ^ 32"
proof -
  have "uint (ucast (2 * d :: size_t) :: unsigned) = uint (2 * d) mod 2 ^ 32"
    by (simp add: unsigned_ucast_eq take_bit_eq_mod)
  also have "uint (2 * d) = (2 * uint d) mod 2 ^ 64"
    by (simp add: uint_word_ariths)
  also have "((2 * uint d) mod 2 ^ 64) mod 2 ^ 32 = (2 * uint d) mod (2 ^ 32 :: int)"
    by (rule mod_mod_cancel) simp
  finally show ?thesis .
qed






subsection \<open>Operations on a closed instance\<close>

text \<open>
  C3, as the specification states it: on a closed instance each of advance, set-to and
  reset is a silent no-op that changes no state. The source guards \<open>tqdm_update_n\<close> and
  \<open>tqdm_update_to\<close> with the closed flag and \<open>tqdm_reset\<close> with nothing: on the closed
  instance \<open>ex_closed\<close>, whose counter stands at 5, a reset puts the counter back to the
  initial value 0 and restarts the clock.
\<close>

theorem closed_reset_counterexample:
  "t_closed ex_closed \<and> t_n ex_closed = 5 \<and> t_n (tqdm_reset 20 ex_closed 0) = 0 \<and>
   t_start_time ex_closed = 10 \<and> t_start_time (tqdm_reset 20 ex_closed 0) = 20"
  by code_simp

text \<open>
  C3, amended: on a closed instance advance and set-to return at once, with the
  instance as it was, nothing written and no error raised (set-to answers \<open>false\<close>);
  reset does not look at the closed flag: it reinitialises the counter as on an open
  instance and leaves the instance closed.
\<close>

theorem closed_update_noop:
  assumes "t_closed s"
  shows "tqdm_update_n rd s k = Inr (s, []) \<and>
         tqdm_update_to rd s v = Inr (False, s, []) \<and>
         t_n (tqdm_reset now s tot) = p_initial (t_params s) \<and>
         t_closed (tqdm_reset now s tot)"
  using assms by (simp add: tqdm_update_n_def tqdm_update_to_def tqdm_reset_def Let_def)

theorem closed_update_noop_witness:
  "t_closed ex_closed \<and>
   tqdm_update_n ex_late ex_closed 7 = Inr (ex_closed, []) \<and>
   tqdm_update_to ex_late ex_closed 9 = Inr (False, ex_closed, []) \<and>
   t_n (tqdm_reset 20 ex_closed 0) = p_initial (t_params ex_closed) \<and>
   t_closed (tqdm_reset 20 ex_closed 0)"
  using closed_update_noop [OF ex_closed_closed, of ex_late 7 9 20 0] ex_closed_closed
  by simp

subsection \<open>Operations on a disabled instance\<close>

text \<open>
  C4: on an instance whose configuration has the disabled flag set, advance and set-to
  leave the counter, and the whole instance, unchanged and write nothing. An instance
  is created disabled when the caller's parameters set the flag and the environment does
  not set \<open>TQDM_DISABLE\<close>, or when that variable reads as true; such an instance starts at
  the initial value, and \<open>tqdm_update_n(50)\<close> leaves it there.
\<close>

theorem disabled_update_noop:
  "(p_disable (t_params (s :: 'it tqdm_t)) \<longrightarrow>
      tqdm_update_n rd s k = Inr (s, []) \<and> tqdm_update_to rd s v = Inr (False, s, [])) \<and>
   (tqdm_create_with_params alloc_ok env now b e sz user_params = Some (s0 :: 'it tqdm_t) \<and>
    (case TQDM_DISABLE env of None \<Rightarrow> p_disable user_params | Some x \<Rightarrow> env_flag x) \<longrightarrow>
      p_disable (t_params s0) \<and> t_n s0 = p_initial user_params \<and>
      tqdm_update_n rd s0 50 = Inr (s0, []) \<and>
      tqdm_update_to rd s0 v = Inr (False, s0, []))"
proof -
  have noop: "tqdm_update_n rd x k' = Inr (x, []) \<and> tqdm_update_to rd x v = Inr (False, x, [])"
    if "p_disable (t_params x)" for x :: "'it tqdm_t" and k'
    using that by (simp add: tqdm_update_n_def tqdm_update_to_def)
  show ?thesis
    using noop [of s k] noop [of s0 50]
      create_with_params_frame [of alloc_ok env now b e sz user_params s0]
    by auto
qed

theorem disabled_update_noop_witness:
  "p_disable (t_params ex_disabled) \<and> t_n ex_disabled = 0 \<and>
   tqdm_update_n ex_reads ex_disabled 50 = Inr (ex_disabled, []) \<and>
   tqdm_update_to ex_reads ex_disabled 50 = Inr (False, ex_disabled, [])"
proof -
  let ?ps = "tqdm_default_params\<lparr>p_desc := Some ''Disabled'', p_disable := True\<rparr>"
  have c: "tqdm_create_with_params True no_env 10 0 0 1 ?ps = Some ex_disabled"
    by (simp add: ex_disabled_def tqdm_create_with_params_def Let_def)
  have d: "case TQDM_DISABLE no_env of None \<Rightarrow> p_disable ?ps | Some x \<Rightarrow> env_flag x"
    by (simp add: no_env_def)
  have i: "p_initial ?ps = 0"
    by (simp add: tqdm_default_params_def)
  from disabled_update_noop [of ex_disabled ex_reads 50 50 True no_env 10 0 0 1 ?ps ex_disabled]
    c d i
  show ?thesis by simp
qed

subsection \<open>The throttle decision of an advance\<close>

text \<open>
  On an open, enabled instance \<open>tqdm_update_n\<close> adds the delta to the counter, lets
  \<open>tqdm_update_dynamic_miniters\<close> adapt the threshold, and then decides on that state.
  Whenever the advanced counter is not below the last-render count, it renders exactly
  when the count gate and the time gate of the specification both pass, and a render
  leaves the clock reading of \<open>tqdm_print_progress\<close> in \<open>last_print_time\<close> and the counter
  in \<open>last_print_count\<close>: this is \<open>update_n_renders_iff_gates\<close> above. The source takes the
  difference \<open>n - last_print_count\<close> in \<open>size_t\<close>, however, and the counter can stand below
  the last-render count, since \<open>tqdm_update_to\<close> lowers it without rendering.

  C1, which says that an advance renders only if the count gate passes, at the instance
  \<open>ex_rewound\<close>: total 100, threshold 5, last render at count 40, counter set back to 10.
  After \<open>tqdm_update_n(1)\<close> the instance is not complete, the threshold is not 0, and the
  counter is 29 below the last-render count, so that the count gate fails; the
  difference wraps to \<open>2^64 - 29\<close>, and the call renders.
\<close>

theorem advance_renders_below_last_count:
  "\<not> t_closed ex_rewound \<and> \<not> p_disable (t_params ex_rewound) \<and>
   p_total (t_params ex_rewound) = 100 \<and> p_miniters (t_params ex_rewound) = 5 \<and>
   t_n ex_rewound = 10 \<and> t_last_print_count ex_rewound = 40 \<and>
   t_last_print_time ex_rewound = 11 \<and>
   \<not> count_gate (tqdm_update_dynamic_miniters 13 (ex_rewound\<lparr>t_n := t_n ex_rewound + 1\<rparr>)) \<and>
   tqdm_update_n (ex_reads_at 13) ex_rewound 1 =
     Inr (ex_rewound\<lparr>t_n := 11, t_last_print_time := 13, t_last_print_count := 11,
                     t_last_terminal_check := 13\<rparr>,
          [CHR 0x0D # '' 11%|###                           | 11/100 [00:03<00:24, 4it/s]''])"
  unfolding ex_rewound_reached by code_simp

subsection \<open>The adaptive threshold\<close>

text \<open>
  C2, as the specification states it: in auto mode, inside the refresh interval and
  with a grown count, the threshold becomes twice the growth. On a fresh instance of
  unknown total an advance by \<open>2^31\<close>, 10 ms after construction, meets every condition,
  and twice the growth is \<open>2^32\<close>; the threshold, an \<open>unsigned\<close>, is 0 afterwards.
\<close>

theorem adaptive_threshold_counterexample:
  "\<not> t_closed ex_unbounded \<and> \<not> p_disable (t_params ex_unbounded) \<and>
   p_miniters (t_params ex_unbounded) = 0 \<and>
   0 < now_adapt ex_reads - t_last_print_time ex_unbounded \<and>
   now_adapt ex_reads - t_last_print_time ex_unbounded < p_mininterval (t_params ex_unbounded) \<and>
   t_last_print_count ex_unbounded < t_n ex_unbounded + 2147483648 \<and>
   \<not> isl (tqdm_update_n ex_reads ex_unbounded 2147483648) \<and>
   uint (p_miniters (t_params (fst (projr (tqdm_update_n ex_reads ex_unbounded 2147483648))))) = 0 \<and>
   2 * (uint (t_n ex_unbounded + 2147483648) - uint (t_last_print_count ex_unbounded)) =
     4294967296"
  by code_simp

text \<open>
  C2, amended: on an advance of an open, enabled instance, before the gates are evaluated
  and against the last-render snapshot as it was, if the threshold is 0, the time since
  the last render is positive and below the minimum interval, and the count has grown
  since the last render, the threshold becomes \<open>2 \<times> (n - last_print_count)\<close> reduced modulo
  \<open>2^32\<close>, the threshold being an \<open>unsigned\<close>; this is \<open>2 \<times> (n - last_print_count)\<close> itself
  whenever that is below \<open>2^32\<close>. If the threshold is not 0, or the time since the last
  render is not in that range, or the count equals the last-render count, the threshold
  is unchanged. The adaptation changes nothing else, the gates are evaluated on the
  adapted threshold, and a render does not change it. Nothing is said here of a counter
  that stands below the last-render count.
\<close>

theorem adaptive_threshold:
  assumes "\<not> t_closed s" and "\<not> p_disable (t_params s)"
  shows "let n' = t_n s + k;
             last = t_last_print_count s;
             td = now_adapt rd - t_last_print_time s;
             auto_mode = (p_miniters (t_params s) = 0 \<and> 0 < td \<and>
                          td < p_mininterval (t_params s));
             s1 = tqdm_update_dynamic_miniters (now_adapt rd) (s\<lparr>t_n := n'\<rparr>);
             threshold = p_miniters (t_params s1)
         in (auto_mode \<and> last < n' \<longrightarrow>
               uint threshold = (2 * (uint n' - uint last)) mod 2 ^ 32 \<and>
               (2 * (uint n' - uint last) < 2 ^ 32 \<longrightarrow>
                  uint threshold = 2 * (uint n' - uint last))) \<and>
            (\<not> auto_mode \<or> n' = last \<longrightarrow> threshold = p_miniters (t_params s)) \<and>
            s1 = s\<lparr>t_n := n', t_params := (t_params s)\<lparr>p_miniters := threshold\<rparr>\<rparr> \<and>
            tqdm_update_n rd s k =
              (if (is_complete s1 \<or> threshold = 0 \<or>
                   ucast threshold \<le> t_n s1 - t_last_print_count s1) \<and>
                  time_gate (now_gate rd) s1
               then tqdm_print_progress (now_print rd) (term_width rd) s1
               else Inr (s1, [])) \<and>
            (case tqdm_update_n rd s k of
               Inr (s', out) \<Rightarrow> p_miniters (t_params s') = threshold
             | Inl f \<Rightarrow> True)"
proof -
  define n' where "n' = t_n s + k"
  define td where "td = now_adapt rd - t_last_print_time s"
  define auto_mode where "auto_mode \<longleftrightarrow>
      p_miniters (t_params s) = 0 \<and> 0 < td \<and> td < p_mininterval (t_params s)"
  define s1 where "s1 = tqdm_update_dynamic_miniters (now_adapt rd) (s\<lparr>t_n := n'\<rparr>)"
  define threshold where "threshold = p_miniters (t_params s1)"
  have th: "threshold =
      (if auto_mode \<and> n' - t_last_print_count s \<noteq> 0
       then ucast (2 * (n' - t_last_print_count s)) else p_miniters (t_params s))"
    by (simp add: threshold_def s1_def dynamic_miniters_eq auto_mode_def td_def)
  have s1: "s1 = s\<lparr>t_n := n', t_params := (t_params s)\<lparr>p_miniters := threshold\<rparr>\<rparr>"
    unfolding th by (simp add: s1_def dynamic_miniters_eq auto_mode_def td_def)
  have grown: "uint threshold = (2 * (uint n' - uint (t_last_print_count s))) mod 2 ^ 32 \<and>
      (2 * (uint n' - uint (t_last_print_count s)) < 2 ^ 32 \<longrightarrow>
         uint threshold = 2 * (uint n' - uint (t_last_print_count s)))"
    if a: "auto_mode" and g: "t_last_print_count s < n'"
  proof -
    from g have "uint (t_last_print_count s) < uint n'"
      by (simp add: word_less_def)
    then have d: "uint (n' - t_last_print_count s) = uint n' - uint (t_last_print_count s)"
      and pos: "0 < uint n' - uint (t_last_print_count s)"
      by (simp_all add: uint_sub_if')
    from g have "n' - t_last_print_count s \<noteq> 0" by simp
    with a have "threshold = ucast (2 * (n' - t_last_print_count s))"
      by (simp add: th)
    then have "uint threshold = (2 * uint (n' - t_last_print_count s)) mod 2 ^ 32"
      by (simp only: uint_ucast_double)
    then have v: "uint threshold = (2 * (uint n' - uint (t_last_print_count s))) mod 2 ^ 32"
      by (simp only: d)
    moreover have "uint threshold = 2 * (uint n' - uint (t_last_print_count s))"
      if "2 * (uint n' - uint (t_last_print_count s)) < 2 ^ 32"
      using that pos v by simp
    ultimately show ?thesis by blast
  qed
  have same: "threshold = p_miniters (t_params s)"
    if "\<not> auto_mode \<or> n' = t_last_print_count s"
    using that by (auto simp: th)
  have open1: "\<not> t_closed s1" "\<not> p_disable (t_params s1)"
    using assms by (simp_all add: s1_def dynamic_miniters_frame)
  have unf: "tqdm_update_n rd s k =
      (if (is_complete s1 \<or> threshold = 0 \<or>
           ucast threshold \<le> t_n s1 - t_last_print_count s1) \<and>
          time_gate (now_gate rd) s1
       then tqdm_print_progress (now_print rd) (term_width rd) s1 else Inr (s1, []))"
    using update_n_unfold [OF assms, of rd k]
    by (simp add: s1_def n'_def threshold_def Let_def)
  have fin: "case tqdm_update_n rd s k of
               Inr (s', out) \<Rightarrow> p_miniters (t_params s') = threshold | Inl f \<Rightarrow> True"
  proof (cases "tqdm_update_n rd s k")
    case (Inl f)
    then show ?thesis by simp
  next
    case (Inr r)
    obtain s' out where r: "r = (s', out)" by (cases r)
    from unf Inr r
    have "s' = s1 \<or> tqdm_print_progress (now_print rd) (term_width rd) s1 = Inr (s', out)"
      by (auto split: if_splits)
    with print_progress_frame [of "now_print rd" "term_width rd" s1 s' out]
    have "t_params s' = t_params s1" by auto
    with Inr r show ?thesis by (simp add: threshold_def)
  qed
  show ?thesis
    unfolding Let_def
    using grown same s1 unf fin
    unfolding threshold_def s1_def auto_mode_def td_def n'_def
    by blast
qed

theorem adaptive_threshold_witness:
  "\<not> t_closed ex_fresh \<and> \<not> p_disable (t_params ex_fresh) \<and>
   p_miniters (t_params ex_fresh) = 0 \<and>
   0 < now_adapt ex_reads - t_last_print_time ex_fresh \<and>
   now_adapt ex_reads - t_last_print_time ex_fresh < p_mininterval (t_params ex_fresh) \<and>
   t_last_print_count ex_fresh < t_n ex_fresh + 5 \<and>
   (case tqdm_update_n ex_reads ex_fresh 5 of
      Inr (s', out) \<Rightarrow> uint (p_miniters (t_params s')) = 10 | Inl f \<Rightarrow> False) \<and>
   \<not> now_adapt ex_late - t_last_print_time ex_fresh < p_mininterval (t_params ex_fresh) \<and>
   (case tqdm_update_n ex_late ex_fresh 5 of
      Inr (s', out) \<Rightarrow> p_miniters (t_params s') = 0 | Inl f \<Rightarrow> False)"
proof -
  have h: "p_miniters (t_params ex_fresh) = 0"
    "0 < now_adapt ex_reads - t_last_print_time ex_fresh"
    "now_adapt ex_reads - t_last_print_time ex_fresh < p_mininterval (t_params ex_fresh)"
    "t_last_print_count ex_fresh < t_n ex_fresh + 5"
    "\<not> now_adapt ex_late - t_last_print_time ex_fresh < p_mininterval (t_params ex_fresh)"
    by code_simp+
  have v: "(2 * (uint (t_n ex_fresh + 5) - uint (t_last_print_count ex_fresh))) mod 2 ^ 32 =
      (10 :: int)"
    by code_simp
  note t1 = adaptive_threshold [OF ex_fresh_open, of 5 ex_reads, unfolded Let_def]
  note t2 = adaptive_threshold [OF ex_fresh_open, of 5 ex_late, unfolded Let_def]
  from t1 h v have a1: "uint (p_miniters (t_params (tqdm_update_dynamic_miniters
      (now_adapt ex_reads) (ex_fresh\<lparr>t_n := t_n ex_fresh + 5\<rparr>)))) = 10"
    by simp
  from t1 have b1: "case tqdm_update_n ex_reads ex_fresh 5 of
      Inr (s', out) \<Rightarrow> p_miniters (t_params s') = p_miniters (t_params
        (tqdm_update_dynamic_miniters (now_adapt ex_reads) (ex_fresh\<lparr>t_n := t_n ex_fresh + 5\<rparr>)))
    | Inl f \<Rightarrow> True"
    by blast
  from t2 h have a2: "p_miniters (t_params (tqdm_update_dynamic_miniters
      (now_adapt ex_late) (ex_fresh\<lparr>t_n := t_n ex_fresh + 5\<rparr>))) = 0"
    by simp
  from t2 have b2: "case tqdm_update_n ex_late ex_fresh 5 of
      Inr (s', out) \<Rightarrow> p_miniters (t_params s') = p_miniters (t_params
        (tqdm_update_dynamic_miniters (now_adapt ex_late) (ex_fresh\<lparr>t_n := t_n ex_fresh + 5\<rparr>)))
    | Inl f \<Rightarrow> True"
    by blast
  have c1: "case tqdm_update_n ex_reads ex_fresh 5 of
      Inr (s', out) \<Rightarrow> uint (p_miniters (t_params s')) = 10 | Inl f \<Rightarrow> False"
    using a1 b1 ex_fresh_returns(2) by (cases "tqdm_update_n ex_reads ex_fresh 5") auto
  have c2: "case tqdm_update_n ex_late ex_fresh 5 of
      Inr (s', out) \<Rightarrow> p_miniters (t_params s') = 0 | Inl f \<Rightarrow> False"
    using a2 b2 ex_fresh_returns(1) by (cases "tqdm_update_n ex_late ex_fresh 5") auto
  from ex_fresh_open h c1 c2 show ?thesis by blast
qed

text \<open>
  A counter below the last-render count, which the amended statement leaves out: the
  source tests \<open>count_diff > 0\<close> on the \<open>size_t\<close> difference, which is positive whenever
  the two counts differ. After a render at count 40, an advance that wraps the counter
  round to 10 inside the refresh interval sets the threshold to \<open>2^32 - 60\<close>.
\<close>

lemma dynamic_miniters_below_last_count:
  "t_n ex_rendered = 40 \<and> t_last_print_count ex_rendered = 40 \<and>
   p_miniters (t_params ex_rendered) = 0 \<and> t_n ex_rendered + (- 30) = 10 \<and>
   tqdm_update_n (ex_reads_at (1101 / 100)) ex_rendered (- 30) =
     Inr (ex_rendered\<lparr>t_n := 10,
            t_params := (t_params ex_rendered)\<lparr>p_miniters := 4294967236\<rparr>\<rparr>, [])"
  by code_simp

subsection \<open>Pulling from an exhausted instance\<close>

text \<open>
  C10: \<open>tqdm_has_next\<close> answers \<open>false\<close> exactly when the instance is closed, or an
  adapter is installed and reports no more items, or (without adapter) the array range
  is exhausted, or (without adapter and without an array end) the total is known and the
  counter has reached it. In each of these cases \<open>tqdm_next\<close> returns \<open>NULL\<close>, leaves the
  instance exactly as it was and writes nothing.
\<close>

theorem next_exhausted_noop:
  "(tqdm_has_next s = Inr False \<longleftrightarrow>
      t_closed s \<or>
      (t_iterator_mode s \<and> (\<exists>h. t_has_next_func s = Some h \<and> \<not> h (t_iterator_state s))) \<or>
      (\<not> t_iterator_mode s \<and> t_end s \<noteq> 0 \<and> t_end s \<le> t_current s) \<or>
      (\<not> t_iterator_mode s \<and> t_end s = 0 \<and>
       0 < p_total (t_params s) \<and> p_total (t_params s) \<le> t_n s)) \<and>
   (tqdm_has_next s = Inr False \<longrightarrow> tqdm_next rd s = Inr (0, s, []))"
proof -
  have "tqdm_has_next s = Inr False \<Longrightarrow> tqdm_next rd s = Inr (0, s, [])"
    by (simp add: tqdm_next_def fault_bind_def)
  moreover have "tqdm_has_next s = Inr False \<longleftrightarrow>
      t_closed s \<or>
      (t_iterator_mode s \<and> (\<exists>h. t_has_next_func s = Some h \<and> \<not> h (t_iterator_state s))) \<or>
      (\<not> t_iterator_mode s \<and> t_end s \<noteq> 0 \<and> t_end s \<le> t_current s) \<or>
      (\<not> t_iterator_mode s \<and> t_end s = 0 \<and>
       0 < p_total (t_params s) \<and> p_total (t_params s) \<le> t_n s)"
    by (auto simp: tqdm_has_next_def not_less split: option.splits)
  ultimately show ?thesis by blast
qed

theorem next_exhausted_noop_witness:
  "tqdm_has_next ex_closed = Inr False \<and> tqdm_next ex_late ex_closed = Inr (0, ex_closed, [])"
proof -
  have h: "tqdm_has_next ex_closed = Inr False"
    using ex_closed_closed by (simp add: tqdm_has_next_def)
  from next_exhausted_noop [of ex_closed ex_late] h show ?thesis by blast
qed

subsection \<open>Setting the counter\<close>

text \<open>
  C5: on an open, enabled instance \<open>tqdm_update_to\<close> computes \<open>delta = max(0, v - n)\<close>,
  stores \<open>v\<close> in the counter whether or not it is below the old value, and decides the
  render with \<open>delta\<close> in the count gate; it answers whether it rendered. The instance
  then holds \<open>v\<close>, so that a second \<open>tqdm_update_to(v)\<close> computes \<open>delta = 0\<close> and
  leaves the counter at \<open>v\<close>.
\<close>

theorem update_to_absolute:
  assumes "\<not> t_closed s" and "\<not> p_disable (t_params s)"
  shows "let delta = update_to_delta s v;
             s1 = tqdm_update_dynamic_miniters (now_adapt rd) (s\<lparr>t_n := v\<rparr>);
             gates = ((is_complete s1 \<or> p_miniters (t_params s1) = 0 \<or>
                       ucast (p_miniters (t_params s1)) \<le> delta) \<and>
                      time_gate (now_gate rd) s1)
         in uint delta = max 0 (uint v - uint (t_n s)) \<and>
            (case tqdm_update_to rd s v of
               Inr (printed, s', out) \<Rightarrow>
                 t_n s' = v \<and> printed = gates \<and> (out \<noteq> [] \<longleftrightarrow> gates) \<and>
                 update_to_delta s' v = 0 \<and>
                 (\<forall>rd'. case tqdm_update_to rd' s' v of
                          Inr (printed', s'', out') \<Rightarrow> t_n s'' = v
                        | Inl f \<Rightarrow> True)
             | Inl f \<Rightarrow>
                 gates \<and> tqdm_print_progress (now_print rd) (term_width rd) s1 = Inl f)"
proof -
  define s1 where "s1 = tqdm_update_dynamic_miniters (now_adapt rd) (s\<lparr>t_n := v\<rparr>)"
  define gates where "gates \<longleftrightarrow>
      (is_complete s1 \<or> p_miniters (t_params s1) = 0 \<or>
       ucast (p_miniters (t_params s1)) \<le> update_to_delta s v) \<and> time_gate (now_gate rd) s1"
  have open1: "\<not> t_closed s1" "\<not> p_disable (t_params s1)"
    using assms by (simp_all add: s1_def dynamic_miniters_frame)
  have unf: "tqdm_update_to rd s v =
      (if gates then fault_bind (tqdm_print_progress (now_print rd) (term_width rd) s1)
                       (\<lambda>(s, out). Inr (True, s, out))
       else Inr (False, s1, []))"
    using update_to_unfold [OF assms, of rd v] by (simp add: s1_def gates_def Let_def)
  have main: "case tqdm_update_to rd s v of
               Inr (printed, s', out) \<Rightarrow>
                 t_n s' = v \<and> printed = gates \<and> (out \<noteq> [] \<longleftrightarrow> gates) \<and>
                 update_to_delta s' v = 0 \<and>
                 (\<forall>rd'. case tqdm_update_to rd' s' v of
                          Inr (printed', s'', out') \<Rightarrow> t_n s'' = v
                        | Inl f \<Rightarrow> True)
             | Inl f \<Rightarrow>
                 gates \<and> tqdm_print_progress (now_print rd) (term_width rd) s1 = Inl f"
  proof (cases "tqdm_update_to rd s v")
    case (Inl f)
    with unf show ?thesis
      by (auto simp: fault_bind_def split: if_splits sum.splits)
  next
    case (Inr r)
    obtain printed s' out where r: "r = (printed, s', out)" by (cases r)
    from update_to_result [OF assms Inr [unfolded r]]
    have res: "t_n s' = v" "\<not> t_closed s'" "\<not> p_disable (t_params s')" by simp_all
    have again: "case tqdm_update_to rd' s' v of
                   Inr (printed', s'', out') \<Rightarrow> t_n s'' = v | Inl f \<Rightarrow> True" for rd'
    proof (cases "tqdm_update_to rd' s' v")
      case (Inl f)
      then show ?thesis by simp
    next
      case (Inr r')
      obtain p' s'' o' where "r' = (p', s'', o')" by (cases r')
      with update_to_result [OF res(2,3), of rd' v p' s'' o'] Inr show ?thesis by simp
    qed
    have pr: "printed = gates \<and> (out \<noteq> [] \<longleftrightarrow> gates)"
    proof (cases gates)
      case False
      with unf Inr r show ?thesis by simp
    next
      case True
      with unf Inr r
      have "tqdm_print_progress (now_print rd) (term_width rd) s1 = Inr (s', out) \<and> printed"
        by (auto simp: fault_bind_def split: sum.splits)
      with print_progress_open [OF open1, of "now_print rd" "term_width rd" s' out] True
      show ?thesis by simp
    qed
    from res(1) pr again Inr r show ?thesis
      by (simp add: update_to_delta_def)
  qed
  show ?thesis
    unfolding Let_def
    using main update_to_delta_value [of s v]
    unfolding gates_def s1_def
    by blast
qed

theorem update_to_absolute_witness:
  "\<not> t_closed ex_fresh \<and> \<not> p_disable (t_params ex_fresh) \<and>
   (case tqdm_update_to ex_late ex_fresh 40 of
      Inr (printed, s', out) \<Rightarrow>
        t_n s' = 40 \<and> update_to_delta s' 40 = 0 \<and>
        (case tqdm_update_to ex_late s' 40 of
           Inr (printed', s'', out') \<Rightarrow> t_n s'' = 40 | Inl f \<Rightarrow> True)
    | Inl f \<Rightarrow> False)"
proof -
  note t = update_to_absolute [OF ex_fresh_open, of 40 ex_late, unfolded Let_def, THEN conjunct2]
  have "case tqdm_update_to ex_late ex_fresh 40 of
      Inr (printed, s', out) \<Rightarrow>
        t_n s' = 40 \<and> update_to_delta s' 40 = 0 \<and>
        (case tqdm_update_to ex_late s' 40 of
           Inr (printed', s'', out') \<Rightarrow> t_n s'' = 40 | Inl f \<Rightarrow> True)
    | Inl f \<Rightarrow> False"
    using t ex_fresh_update_to_returns
    by (cases "tqdm_update_to ex_late ex_fresh 40") auto
  with ex_fresh_open show ?thesis by blast
qed

subsection \<open>Reset\<close>

text \<open>
  C6: on every instance \<open>tqdm_reset\<close> puts the counter back to the configured initial
  value and the processed-item counter to 0, restarts the clock, clears the pause flag
  and the accumulated pause time (the pause-start stamp, which only \<open>tqdm_unpause\<close>
  writes, stays), zeroes the rate history and its index, and replaces the total exactly
  when the argument is positive; \<open>tqdm_reset(0)\<close> keeps the total. No other operation on
  an existing instance (advance, set-to, refresh, close) changes the total.
\<close>

theorem reset_reinitialises:
  "(let s' = tqdm_reset now s tot in
      t_n s' = p_initial (t_params s) \<and> t_count s' = 0 \<and>
      \<not> t_paused s' \<and> t_total_pause_time s' = 0 \<and> t_pause_start s' = t_pause_start s \<and>
      t_start_time s' = now \<and> t_last_print_time s' = now \<and>
      t_last_print_count s' = p_initial (t_params s) \<and>
      take (unat (t_rate_history_size s)) (t_rate_history s') =
        replicate (min (unat (t_rate_history_size s)) (length (t_rate_history s))) 0 \<and>
      (length (t_rate_history s) = unat (t_rate_history_size s) \<longrightarrow>
         t_rate_history s' = replicate (unat (t_rate_history_size s)) 0) \<and>
      t_rate_history_idx s' = 0 \<and>
      p_total (t_params s') = (if 0 < tot then tot else p_total (t_params s)) \<and>
      t_closed s' = t_closed s) \<and>
   p_total (t_params (tqdm_reset now s 0)) = p_total (t_params s) \<and>
   (case tqdm_update_n rd s k of
      Inr (s', out) \<Rightarrow> p_total (t_params s') = p_total (t_params s) | Inl f \<Rightarrow> True) \<and>
   (case tqdm_update_to rd s v of
      Inr (printed, s', out) \<Rightarrow> p_total (t_params s') = p_total (t_params s)
    | Inl f \<Rightarrow> True) \<and>
   (case tqdm_refresh rd s of
      Inr (s', out) \<Rightarrow> p_total (t_params s') = p_total (t_params s) | Inl f \<Rightarrow> True) \<and>
   (case tqdm_close rd s of
      Inr (s', out) \<Rightarrow> p_total (t_params s') = p_total (t_params s) | Inl f \<Rightarrow> True)"
proof -
  have r: "let s' = tqdm_reset now s tot in
      t_n s' = p_initial (t_params s) \<and> t_count s' = 0 \<and>
      \<not> t_paused s' \<and> t_total_pause_time s' = 0 \<and> t_pause_start s' = t_pause_start s \<and>
      t_start_time s' = now \<and> t_last_print_time s' = now \<and>
      t_last_print_count s' = p_initial (t_params s) \<and>
      take (unat (t_rate_history_size s)) (t_rate_history s') =
        replicate (min (unat (t_rate_history_size s)) (length (t_rate_history s))) 0 \<and>
      (length (t_rate_history s) = unat (t_rate_history_size s) \<longrightarrow>
         t_rate_history s' = replicate (unat (t_rate_history_size s)) 0) \<and>
      t_rate_history_idx s' = 0 \<and>
      p_total (t_params s') = (if 0 < tot then tot else p_total (t_params s)) \<and>
      t_closed s' = t_closed s"
    by (auto simp: tqdm_reset_def Let_def memset_zero_def)
  have z: "p_total (t_params (tqdm_reset now s 0)) = p_total (t_params s)"
    by (simp add: tqdm_reset_def Let_def)
  have a: "case tqdm_update_n rd s k of
      Inr (s', out) \<Rightarrow> p_total (t_params s') = p_total (t_params s) | Inl f \<Rightarrow> True"
    using update_n_params [of rd s k] by (auto split: sum.splits)
  have b: "case tqdm_update_to rd s v of
      Inr (printed, s', out) \<Rightarrow> p_total (t_params s') = p_total (t_params s)
    | Inl f \<Rightarrow> True"
    using update_to_params [of rd s v] by (auto split: sum.splits)
  have c: "case tqdm_refresh rd s of
      Inr (s', out) \<Rightarrow> p_total (t_params s') = p_total (t_params s) | Inl f \<Rightarrow> True"
    using refresh_params [of rd s] by (auto split: sum.splits)
  have d: "case tqdm_close rd s of
      Inr (s', out) \<Rightarrow> p_total (t_params s') = p_total (t_params s) | Inl f \<Rightarrow> True"
    using close_params [of rd s] by (auto split: sum.splits)
  from r z a b c d show ?thesis by blast
qed

theorem reset_reinitialises_witness:
  "t_n ex_running = 5 \<and>
   length (t_rate_history ex_running) = unat (t_rate_history_size ex_running) \<and>
   t_n (tqdm_reset 20 ex_running 500) = 0 \<and>
   \<not> t_paused (tqdm_reset 20 ex_running 500) \<and>
   t_rate_history (tqdm_reset 20 ex_running 500) = replicate 10 0 \<and>
   p_total (t_params (tqdm_reset 20 ex_running 500)) = 500 \<and>
   p_total (t_params (tqdm_reset 20 ex_running 0)) = 100"
proof -
  have v: "t_n ex_running = 5" "p_initial (t_params ex_running) = 0"
    "length (t_rate_history ex_running) = unat (t_rate_history_size ex_running)"
    "unat (t_rate_history_size ex_running) = 10" "p_total (t_params ex_running) = 100"
    by code_simp+
  note t = reset_reinitialises [of 20 ex_running 500 ex_late 1 1, unfolded Let_def]
  from t v show ?thesis by simp
qed

subsection \<open>The scaling formatter\<close>

text \<open>
  C9, as the specification states it: the prefix style follows the divisor, binary
  (Ki, Mi, ...) for 1024 and decimal (k, M, ...) for 1000. The source has one table of
  prefixes and indexes it in both loops: 1536 bytes at divisor 1024 are \<open>1.50kB\<close> and
  \<open>2^20\<close> bytes are \<open>1MB\<close>, neither with a binary prefix.
\<close>

theorem format_sizeof_decimal_prefix_counterexample:
  "tqdm_format_sizeof 1536 (Some ''B'') 1024 = Inr ''1.50kB'' \<and>
   \<not> sublist ''Ki'' ''1.50kB'' \<and>
   tqdm_format_sizeof 1048576 (Some ''B'') 1024 = Inr ''1MB'' \<and>
   \<not> sublist ''Mi'' ''1MB''"
  by code_simp

text \<open>
  C9, amended: for a positive divisor the formatter divides the number by the divisor
  as long as it is not below the divisor and fewer than 8 divisions have been made, so
  that the scaled number is the number over a power of the divisor, and is below the
  divisor unless the table is exhausted; for every non-zero divisor the loop yields a
  scaled number and an index, and the text is the digits of the scaled number, the
  entry of the one table \<open>"", k, M, G, T, P, E, Z, Y\<close> at that index, and the suffix, cut
  to 63 bytes. The prefix does not depend on the divisor: a number between one and a
  thousand times the divisor gives the same text at divisor 1024 as at divisor 1000. In
  particular 1536 at divisor 1024 is \<open>1.50kB\<close> and 1500 at divisor 1000 is \<open>1.50k\<close>, and
  both contain \<open>1.5\<close>.
\<close>

theorem format_sizeof_scaling:
  "(0 < d \<and> sizeof_loop d num 0 = Some (num', k) \<longrightarrow>
      k \<le> 8 \<and> num' = num / d ^ k \<and> (num' < d \<or> k = 8) \<and> (\<forall>j<k. d \<le> num / d ^ j)) \<and>
   (divisor \<noteq> 0 \<longrightarrow>
      (\<exists>x i. (if divisor = 1024 then sizeof_loop 1024 num 0
               else sizeof_loop (of_int divisor) num 0) = Some (x, i) \<and>
              tqdm_format_sizeof num sfx divisor = sizeof_text x i (opt_str sfx) \<and>
              (\<forall>text. tqdm_format_sizeof num sfx divisor = Inr text \<longrightarrow>
                 (\<exists>digits. text = take 63 (digits @ prefixes_table ! i @ opt_str sfx))))) \<and>
   (1 \<le> y \<and> y < 1000 \<longrightarrow>
      tqdm_format_sizeof (y * 1024) sfx 1024 = tqdm_format_sizeof (y * 1000) sfx 1000) \<and>
   prefixes_table = ['''', ''k'', ''M'', ''G'', ''T'', ''P'', ''E'', ''Z'', ''Y''] \<and>
   tqdm_format_sizeof 1536 (Some ''B'') 1024 = Inr ''1.50kB'' \<and>
   tqdm_format_sizeof 1500 None 1000 = Inr ''1.50k'' \<and>
   sublist ''1.5'' ''1.50kB'' \<and> sublist ''1.5'' ''1.50k''"
proof -
  have a: "k \<le> 8 \<and> num' = num / d ^ k \<and> (num' < d \<or> k = 8) \<and> (\<forall>j<k. d \<le> num / d ^ j)"
    if "0 < d" "sizeof_loop d num 0 = Some (num', k)"
    using sizeof_loop_law [OF that] by auto
  have b: "\<exists>x i. (if divisor = 1024 then sizeof_loop 1024 num 0
               else sizeof_loop (of_int divisor) num 0) = Some (x, i) \<and>
              tqdm_format_sizeof num sfx divisor = sizeof_text x i (opt_str sfx) \<and>
              (\<forall>text. tqdm_format_sizeof num sfx divisor = Inr text \<longrightarrow>
                 (\<exists>digits. text = take 63 (digits @ prefixes_table ! i @ opt_str sfx)))"
    if nz: "divisor \<noteq> 0"
  proof -
    define r where "r = (if divisor = 1024 then sizeof_loop 1024 num 0
               else sizeof_loop (of_int divisor) num 0)"
    have "\<exists>x i. r = Some (x, i)"
      unfolding r_def using sizeof_loop_total [of 1024 num 0]
        sizeof_loop_total [of "of_int divisor" num 0] nz by auto
    then obtain x i where r: "r = Some (x, i)" by blast
    then have f: "tqdm_format_sizeof num sfx divisor = sizeof_text x i (opt_str sfx)"
      by (simp add: tqdm_format_sizeof_def r_def [symmetric])
    with sizeof_text_shape [of x i "opt_str sfx"] r show ?thesis
      unfolding r_def by auto
  qed
  have c: "tqdm_format_sizeof (y * 1024) sfx 1024 = tqdm_format_sizeof (y * 1000) sfx 1000"
    if "1 \<le> y" "y < 1000"
    using that sizeof_loop_once [of 1024 y] sizeof_loop_once [of 1000 y]
    by (simp add: tqdm_format_sizeof_def)
  have e: "tqdm_format_sizeof 1536 (Some ''B'') 1024 = Inr ''1.50kB''"
    "tqdm_format_sizeof 1500 None 1000 = Inr ''1.50k''"
    "sublist ''1.5'' ''1.50kB''" "sublist ''1.5'' ''1.50k''"
    by code_simp+
  from a b c e show ?thesis by (simp add: prefixes_table_def)
qed

theorem format_sizeof_scaling_witness:
  "(0::real) < 1024 \<and> sizeof_loop 1024 1536 0 = Some (3 / 2, 1) \<and> (1024::int) \<noteq> 0 \<and>
   (1::real) \<le> 3 / 2 \<and> (3 / 2 :: real) < 1000 \<and>
   (3 / 2 :: real) = 1536 / 1024 ^ 1 \<and>
   tqdm_format_sizeof (3 / 2 * 1024) (Some ''B'') 1024 =
     tqdm_format_sizeof (3 / 2 * 1000) (Some ''B'') 1000 \<and>
   (\<exists>digits. ''1.50kB'' = take 63 (digits @ prefixes_table ! 1 @ opt_str (Some ''B'')))"
proof -
  have l: "sizeof_loop 1024 1536 0 = Some (3 / 2, 1)"
    by code_simp
  note t = format_sizeof_scaling [of 1024 1536 "3 / 2" 1 1024 "Some ''B''" "3 / 2"]
  from t l show ?thesis by auto
qed

subsection \<open>The remaining-time field\<close>



subsection \<open>The bar at completion\<close>

text \<open>
  Where the arithmetic stays exact, the bar at \<open>n = total\<close> is full in both modes, and
  the glyph bar of an unknown total is empty: these are \<open>bar_ascii_full\<close>,
  \<open>bar_glyph_full\<close> and \<open>bar_glyph_unknown\<close> above. The ASCII branch computes
  \<open>bar_width * n\<close> in \<open>double\<close>, and \<open>bar_ascii_full\<close> needs the product to stay below
  \<open>2^53\<close>; beyond, the rounded quotient can fall short of the width
  (\<open>bar_ascii_rounds_down\<close>). The glyph branch computes \<open>n * 8 * bar_width\<close> in \<open>size_t\<close>,
  and \<open>bar_glyph_full\<close> needs the product to stay below \<open>2^64\<close>.

  C8, at \<open>n = total = 2^61\<close> and a bar of 10 cells: \<open>n * 8\<close> wraps to 0, so that the
  glyph bar of the completed instance is ten spaces, under a percentage of 100, while
  the ASCII bar of the same instance is ten \<open>#\<close>.
\<close>

theorem glyph_bar_overflow:
  "bar_glyph 2305843009213693952 2305843009213693952 10 = Inr (replicate 10 CHR '' '') \<and>
   bar_ascii 2305843009213693952 2305843009213693952 10 = Inr (replicate 10 CHR ''#'') \<and>
   meter_bar_width 60 None None = 10 \<and>
   tqdm_format_meter 2305843009213693952 2305843009213693952 1 60 None False (Some ''it'')
     False 1 None None 1000 =
     Inr ''100%|          | 2305843009b/2305843009b [00:01<?, 1it/s]''"
  by code_simp

end
